theory Spec2Isabelle
  imports Main
begin

section \<open>Ownership tags\<close>

text \<open>
  A tag is one \<^verbatim>\<open>{'Key': k, 'Value': v}\<close> entry of a provider response. Every front end
  turns the tag list of a response into a dictionary with the comprehension
  \<^verbatim>\<open>{t['Key']: t['Value'] for t in tags}\<close>, in which a later entry of the list replaces an
  earlier one with the same key.
\<close>

type_synonym tag = "string \<times> string"

definition tags_dict :: "tag list \<Rightarrow> (string \<rightharpoonup> string)" where
  "tags_dict ts = fold (\<lambda>t m. m(fst t \<mapsto> snd t)) ts Map.empty"

text \<open>
  The ownership test is written inline at every use, as
  \<^verbatim>\<open>tags.get('CreatedBy') == TAG_CREATED_BY\<close> in the listings and as
  \<^verbatim>\<open>tags.get('CreatedBy') != TAG_CREATED_BY\<close> in the guards. \<^verbatim>\<open>dict.get\<close> gives
  \<^verbatim>\<open>None\<close> for a missing key, which is different from every string.
\<close>

definition is_managed :: "string \<Rightarrow> (string \<rightharpoonup> string) \<Rightarrow> bool" where
  "is_managed created_by tags = (tags ''CreatedBy'' = Some created_by)"

record config =
  tag_created_by :: string
  tag_owner :: string
  aws_region :: "string option"


section \<open>The provider\<close>

text \<open>
  The cloud provider is an external collaborator: the program only sends requests to it
  and reads the responses. The provider is represented by a world (the resources it
  holds), by what each request used by the program answers and changes in that world,
  and by a fault table: any single request may fail, with a \<^verbatim>\<open>ClientError\<close> (an error
  response of the service) or with another exception (for example a connection error of
  the transport, which is not a \<^verbatim>\<open>ClientError\<close>). Every request sent is appended to a
  trace, whether it succeeds or fails.
\<close>

datatype exn = ClientError | BotoCoreError | IndexError | KeyError

type_synonym ec2_filter = "string \<times> string list"

datatype action = CREATE | DELETE | UPSERT

record rrset =
  rr_name :: string
  rr_type :: string
  rr_ttl :: "int option"
  rr_values :: "string list"

datatype call =
    DescribeInstances "ec2_filter list" "string list"
  | GetParameter string
  | RunInstances string string string "tag list"
  | StartInstances "string list"
  | StopInstances "string list"
  | TerminateInstances "string list"
  | ListBuckets
  | GetBucketTagging string
  | CreateBucket string "string option"
  | PutBucketTagging string "tag list"
  | DeletePublicAccessBlock string
  | PutPublicAccessBlock string bool bool bool bool
  | ListHostedZones
  | ListTagsForResource string string
  | GetHostedZone string
  | ChangeResourceRecordSets string action rrset
  | ListResourceRecordSets string

record ec2_instance =
  inst_id :: string
  inst_tags :: "tag list option"
  inst_state :: string
  inst_type :: string
  inst_public_ip :: "string option"

record bucket =
  bucket_Name :: string
  bucket_creation_date :: string
  bucket_tagset :: "tag list option"
  bucket_public_access_block :: "(bool \<times> bool \<times> bool \<times> bool) option"

record zone =
  zone_Id :: string
  zone_Name :: string
  zone_tags :: "tag list"
  zone_records :: "rrset list"

record world =
  reservations :: "ec2_instance list list"
  ssm_parameters :: "string \<rightharpoonup> string"
  new_instance_ids :: "string list"
  buckets :: "bucket list"
  zones :: "zone list"
  clock :: string
  fault :: "call \<Rightarrow> exn option"

type_synonym state = "world \<times> call list"

definition api :: "call \<Rightarrow> (world \<Rightarrow> (exn + 'a) \<times> world) \<Rightarrow> state \<Rightarrow> (exn + 'a) \<times> state" where
  "api c sem s =
     (case s of (w, tr) \<Rightarrow>
        (case fault w c of
           Some e \<Rightarrow> (Inl e, (w, tr @ [c]))
         | None \<Rightarrow> (case sem w of (r, w') \<Rightarrow> (r, (w', tr @ [c])))))"

subsection \<open>Compute service\<close>

text \<open>
  \<^verbatim>\<open>i.get('Tags', [])\<close>: the response leaves the key out for an instance without tags.
\<close>

definition get_Tags :: "ec2_instance \<Rightarrow> tag list" where
  "get_Tags i = (case inst_tags i of None \<Rightarrow> [] | Some ts \<Rightarrow> ts)"

text \<open>
  The two filters the program uses: \<^verbatim>\<open>tag:<key>\<close> holds of an instance that carries the tag
  with one of the values, \<^verbatim>\<open>instance-state-name\<close> of an instance in one of the states.
  Values are compared as they are (the wildcard characters of the service are not
  represented).
\<close>

definition filter_matches :: "ec2_filter \<Rightarrow> ec2_instance \<Rightarrow> bool" where
  "filter_matches f i =
     (if fst f = ''instance-state-name'' then inst_state i \<in> set (snd f)
      else if take 4 (fst f) = ''tag:'' then (\<exists>v \<in> set (snd f). (drop 4 (fst f), v) \<in> set (get_Tags i))
      else False)"

definition describe_instances ::
    "ec2_filter list \<Rightarrow> string list \<Rightarrow> state \<Rightarrow> (exn + ec2_instance list list) \<times> state" where
  "describe_instances Filters InstanceIds =
     api (DescribeInstances Filters InstanceIds) (\<lambda>w.
       if \<exists>x \<in> set InstanceIds. x \<notin> inst_id ` set (concat (reservations w))
       then (Inl ClientError, w)
       else (Inr (filter (\<lambda>r. r \<noteq> [])
                    (map (filter (\<lambda>i. (InstanceIds = [] \<or> inst_id i \<in> set InstanceIds)
                                      \<and> (\<forall>f \<in> set Filters. filter_matches f i)))
                         (reservations w))), w))"

definition set_state :: "string list \<Rightarrow> string \<Rightarrow> world \<Rightarrow> (exn + unit) \<times> world" where
  "set_state ids st w =
     (if \<exists>x \<in> set ids. x \<notin> inst_id ` set (concat (reservations w))
      then (Inl ClientError, w)
      else (Inr (), w\<lparr>reservations :=
              map (map (\<lambda>i. if inst_id i \<in> set ids then i\<lparr>inst_state := st\<rparr> else i))
                  (reservations w)\<rparr>))"

definition stop_instances :: "string list \<Rightarrow> state \<Rightarrow> (exn + unit) \<times> state" where
  "stop_instances ids = api (StopInstances ids) (set_state ids ''stopping'')"

definition start_instances :: "string list \<Rightarrow> state \<Rightarrow> (exn + unit) \<times> state" where
  "start_instances ids = api (StartInstances ids) (set_state ids ''pending'')"

definition terminate_instances :: "string list \<Rightarrow> state \<Rightarrow> (exn + unit) \<times> state" where
  "terminate_instances ids = api (TerminateInstances ids) (set_state ids ''shutting-down'')"

definition get_parameter :: "string \<Rightarrow> state \<Rightarrow> (exn + string) \<times> state" where
  "get_parameter path =
     api (GetParameter path) (\<lambda>w.
       case ssm_parameters w path of None \<Rightarrow> (Inl ClientError, w) | Some v \<Rightarrow> (Inr v, w))"

text \<open>
  A launch answers with the identifier the provider chose; the identifiers it will hand
  out next are part of the world.
\<close>

definition run_instances ::
    "string \<Rightarrow> string \<Rightarrow> string \<Rightarrow> tag list \<Rightarrow> state \<Rightarrow> (exn + string) \<times> state" where
  "run_instances ImageId InstanceType KeyName Tags =
     api (RunInstances ImageId InstanceType KeyName Tags) (\<lambda>w.
       case new_instance_ids w of
         [] \<Rightarrow> (Inl ClientError, w)
       | nid # rest \<Rightarrow>
           (Inr nid,
            w\<lparr>reservations := reservations w @
                 [[\<lparr>inst_id = nid, inst_tags = Some Tags, inst_state = ''pending'',
                    inst_type = InstanceType, inst_public_ip = None\<rparr>]],
              new_instance_ids := rest\<rparr>))"


subsection \<open>Storage service\<close>

text \<open>
  A bucket without a tag set answers the tag request with an error response
  (\<open>bucket_tagset\<close> is \<open>None\<close>). Bucket names are unique; a new bucket starts without tags
  and with the four public-access blocks on.
\<close>

type_synonym bucket_row = "string \<times> string"

definition list_buckets :: "state \<Rightarrow> (exn + bucket_row list) \<times> state" where
  "list_buckets =
     api ListBuckets (\<lambda>w. (Inr (map (\<lambda>b. (bucket_Name b, bucket_creation_date b)) (buckets w)), w))"

definition find_bucket :: "world \<Rightarrow> string \<Rightarrow> bucket option" where
  "find_bucket w name = find (\<lambda>b. bucket_Name b = name) (buckets w)"

definition update_bucket :: "string \<Rightarrow> (bucket \<Rightarrow> bucket) \<Rightarrow> world \<Rightarrow> (exn + unit) \<times> world" where
  "update_bucket name f w =
     (case find_bucket w name of
        None \<Rightarrow> (Inl ClientError, w)
      | Some _ \<Rightarrow>
          (Inr (), w\<lparr>buckets := map (\<lambda>b. if bucket_Name b = name then f b else b) (buckets w)\<rparr>))"

definition get_bucket_tagging :: "string \<Rightarrow> state \<Rightarrow> (exn + tag list) \<times> state" where
  "get_bucket_tagging name =
     api (GetBucketTagging name) (\<lambda>w.
       case find_bucket w name of
         None \<Rightarrow> (Inl ClientError, w)
       | Some b \<Rightarrow> (case bucket_tagset b of None \<Rightarrow> (Inl ClientError, w) | Some ts \<Rightarrow> (Inr ts, w)))"

definition create_bucket :: "string \<Rightarrow> string option \<Rightarrow> state \<Rightarrow> (exn + unit) \<times> state" where
  "create_bucket name location =
     api (CreateBucket name location) (\<lambda>w.
       case find_bucket w name of
         Some _ \<Rightarrow> (Inl ClientError, w)
       | None \<Rightarrow>
           (Inr (), w\<lparr>buckets := buckets w @
              [\<lparr>bucket_Name = name, bucket_creation_date = clock w, bucket_tagset = None,
                bucket_public_access_block = Some (True, True, True, True)\<rparr>]\<rparr>))"

definition put_bucket_tagging :: "string \<Rightarrow> tag list \<Rightarrow> state \<Rightarrow> (exn + unit) \<times> state" where
  "put_bucket_tagging name ts =
     api (PutBucketTagging name ts) (update_bucket name (\<lambda>b. b\<lparr>bucket_tagset := Some ts\<rparr>))"

definition delete_public_access_block :: "string \<Rightarrow> state \<Rightarrow> (exn + unit) \<times> state" where
  "delete_public_access_block name =
     api (DeletePublicAccessBlock name)
       (update_bucket name (\<lambda>b. b\<lparr>bucket_public_access_block := None\<rparr>))"

definition put_public_access_block ::
    "string \<Rightarrow> bool \<Rightarrow> bool \<Rightarrow> bool \<Rightarrow> bool \<Rightarrow> state \<Rightarrow> (exn + unit) \<times> state" where
  "put_public_access_block name a b c d =
     api (PutPublicAccessBlock name a b c d)
       (update_bucket name (\<lambda>x. x\<lparr>bucket_public_access_block := Some (a, b, c, d)\<rparr>))"

subsection \<open>Name service\<close>

text \<open>
  The identifier of a zone is answered as a path (\<^verbatim>\<open>/hostedzone/Z1\<close>); the program keeps the
  part after the last slash, \<^verbatim>\<open>zone['Id'].split('/')[-1]\<close>, and the requests name a zone by
  that part.
\<close>

definition after_last_slash :: "string \<Rightarrow> string" where
  "after_last_slash s = rev (takeWhile (\<lambda>c. c \<noteq> CHR ''/'') (rev s))"

definition find_zone :: "world \<Rightarrow> string \<Rightarrow> zone option" where
  "find_zone w zid = find (\<lambda>z. after_last_slash (zone_Id z) = after_last_slash zid) (zones w)"

text \<open>One entry of the zone listing: identifier, name, number of record sets.\<close>

type_synonym hosted_zone = "string \<times> string \<times> nat"

definition list_hosted_zones :: "state \<Rightarrow> (exn + hosted_zone list) \<times> state" where
  "list_hosted_zones =
     api ListHostedZones (\<lambda>w.
       (Inr (map (\<lambda>z. (zone_Id z, zone_Name z, length (zone_records z))) (zones w)), w))"

definition list_tags_for_resource :: "string \<Rightarrow> string \<Rightarrow> state \<Rightarrow> (exn + tag list) \<times> state" where
  "list_tags_for_resource ResourceType ResourceId =
     api (ListTagsForResource ResourceType ResourceId) (\<lambda>w.
       if ResourceType \<noteq> ''hostedzone'' then (Inl ClientError, w)
       else case find_zone w ResourceId of
              None \<Rightarrow> (Inl ClientError, w)
            | Some z \<Rightarrow> (Inr (zone_tags z), w))"

definition get_hosted_zone :: "string \<Rightarrow> state \<Rightarrow> (exn + string) \<times> state" where
  "get_hosted_zone zid =
     api (GetHostedZone zid) (\<lambda>w.
       case find_zone w zid of None \<Rightarrow> (Inl ClientError, w) | Some z \<Rightarrow> (Inr (zone_Name z), w))"

definition list_resource_record_sets :: "string \<Rightarrow> state \<Rightarrow> (exn + rrset list) \<times> state" where
  "list_resource_record_sets zid =
     api (ListResourceRecordSets zid) (\<lambda>w.
       case find_zone w zid of None \<Rightarrow> (Inl ClientError, w) | Some z \<Rightarrow> (Inr (zone_records z), w))"

text \<open>
  A change of the record sets of a zone. A record set is identified by its name and type.
  \<^verbatim>\<open>UPSERT\<close> creates the record set or replaces the one with the same name and type;
  \<^verbatim>\<open>DELETE\<close> removes a record set only when the one sent equals the live one in every
  field (name, type, time-to-live, values) and is rejected otherwise; \<^verbatim>\<open>CREATE\<close> is
  rejected when a record set with the name and type exists. The provider's checks on the
  syntax of names and values are not represented.
\<close>

definition same_key :: "rrset \<Rightarrow> rrset \<Rightarrow> bool" where
  "same_key r r' = (rr_name r = rr_name r' \<and> rr_type r = rr_type r')"

definition apply_change :: "action \<Rightarrow> rrset \<Rightarrow> rrset list \<Rightarrow> exn + rrset list" where
  "apply_change a r rs =
     (case a of
        UPSERT \<Rightarrow> Inr (filter (\<lambda>r'. \<not> same_key r r') rs @ [r])
      | DELETE \<Rightarrow> (if r \<in> set rs then Inr (removeAll r rs) else Inl ClientError)
      | CREATE \<Rightarrow> (if \<exists>r' \<in> set rs. same_key r r' then Inl ClientError else Inr (rs @ [r])))"

definition change_resource_record_sets ::
    "string \<Rightarrow> action \<Rightarrow> rrset \<Rightarrow> state \<Rightarrow> (exn + unit) \<times> state" where
  "change_resource_record_sets zid a r =
     api (ChangeResourceRecordSets zid a r) (\<lambda>w.
       case find_zone w zid of
         None \<Rightarrow> (Inl ClientError, w)
       | Some z \<Rightarrow>
           (case apply_change a r (zone_records z) of
              Inl e \<Rightarrow> (Inl e, w)
            | Inr rs \<Rightarrow>
                (Inr (), w\<lparr>zones :=
                   map (\<lambda>z'. if after_last_slash (zone_Id z') = after_last_slash zid
                              then z'\<lparr>zone_records := rs\<rparr> else z') (zones w)\<rparr>)))"

section \<open>Outcomes of a command\<close>

text \<open>
  A command ends in one of four ways: it completes; it reports a failure on the error
  stream and returns (the kinds are those of the messages: type not allowed, limit
  reached, not managed by the tool, or an exception caught by one of its handlers); the
  operator declines a confirmation prompt; or an exception that no handler of the command
  catches leaves it.
\<close>

datatype error = InvalidConfiguration | QuotaExceeded | NotManaged | ProviderError exn

datatype result = Success | Failed error | Cancelled | Crashed exn

section \<open>Compute commands of the command line (ec2.py)\<close>

definition ALLOWED_TYPES :: "string list" where
  "ALLOWED_TYPES = [''t3.micro'', ''t3.small'']"

definition MAX_INSTANCES :: nat where
  "MAX_INSTANCES = 2"

definition SSM_AMI_PATH :: string where
  "SSM_AMI_PATH = ''/aws/service/ami-amazon-linux-latest/amzn2-ami-hvm-x86_64-gp2''"

definition get_latest_ami :: "state \<Rightarrow> (exn + string) \<times> state" where
  "get_latest_ami = get_parameter SSM_AMI_PATH"

definition ec2_create :: "config \<Rightarrow> string \<Rightarrow> string \<Rightarrow> string \<Rightarrow> state \<Rightarrow> result \<times> state" where
  "ec2_create cfg instance_type key_name name s =
     (if instance_type \<notin> set ALLOWED_TYPES then (Failed InvalidConfiguration, s)
      else
        case describe_instances
               [(''tag:CreatedBy'', [tag_created_by cfg]),
                (''instance-state-name'', [''running'', ''pending'', ''stopping'', ''stopped''])]
               [] s of
          (Inl e, s1) \<Rightarrow> (Crashed e, s1)
        | (Inr response, s1) \<Rightarrow>
            let current_count = sum_list (map length response) in
            if current_count \<ge> MAX_INSTANCES then (Failed QuotaExceeded, s1)
            else
              case get_latest_ami s1 of
                (Inl e, s2) \<Rightarrow> (Failed (ProviderError e), s2)
              | (Inr latest_ami, s2) \<Rightarrow>
                  (case run_instances latest_ami instance_type key_name
                          [(''Name'', name), (''CreatedBy'', tag_created_by cfg),
                           (''Owner'', tag_owner cfg)] s2 of
                     (Inl e, s3) \<Rightarrow> (Failed (ProviderError e), s3)
                   | (Inr instance_id, s3) \<Rightarrow> (Success, s3)))"

text \<open>One printed line of the listing: identifier, name, state, type, public address.\<close>

type_synonym ec2_row = "string \<times> string \<times> string \<times> string \<times> string"

definition ec2_row_of :: "ec2_instance \<Rightarrow> ec2_row" where
  "ec2_row_of i =
     (inst_id i,
      (case tags_dict (get_Tags i) ''Name'' of None \<Rightarrow> ''Unknown'' | Some n \<Rightarrow> n),
      inst_state i,
      inst_type i,
      (case inst_public_ip i of None \<Rightarrow> ''N/A'' | Some a \<Rightarrow> a))"

definition ec2_list :: "config \<Rightarrow> state \<Rightarrow> (result \<times> ec2_row list) \<times> state" where
  "ec2_list cfg s =
     (case describe_instances [(''tag:CreatedBy'', [tag_created_by cfg])] [] s of
        (Inl e, s1) \<Rightarrow> ((Crashed e, []), s1)
      | (Inr response, s1) \<Rightarrow>
          ((Success,
            map ec2_row_of (filter (\<lambda>i. inst_state i \<noteq> ''terminated'') (concat response))), s1))"

text \<open>
  \<^verbatim>\<open>response['Reservations'][0]['Instances'][0]\<close> raises \<^verbatim>\<open>IndexError\<close> on an empty list;
  the handler of the command catches it like any other exception.
\<close>

definition first_instance :: "ec2_instance list list \<Rightarrow> exn + ec2_instance" where
  "first_instance response =
     (case response of
        [] \<Rightarrow> Inl IndexError
      | r # _ \<Rightarrow> (case r of [] \<Rightarrow> Inl IndexError | i # _ \<Rightarrow> Inr i))"

definition ec2_stop :: "config \<Rightarrow> string \<Rightarrow> state \<Rightarrow> result \<times> state" where
  "ec2_stop cfg instance_id s =
     (case describe_instances [] [instance_id] s of
        (Inl e, s1) \<Rightarrow> (Failed (ProviderError e), s1)
      | (Inr response, s1) \<Rightarrow>
          (case first_instance response of
             Inl e \<Rightarrow> (Failed (ProviderError e), s1)
           | Inr inst \<Rightarrow>
               let tags = tags_dict (get_Tags inst) in
               if \<not> is_managed (tag_created_by cfg) tags then (Failed NotManaged, s1)
               else
                 (case stop_instances [instance_id] s1 of
                    (Inl e, s2) \<Rightarrow> (Failed (ProviderError e), s2)
                  | (Inr _, s2) \<Rightarrow> (Success, s2))))"

definition ec2_start :: "config \<Rightarrow> string \<Rightarrow> state \<Rightarrow> result \<times> state" where
  "ec2_start cfg instance_id s =
     (case describe_instances [] [instance_id] s of
        (Inl e, s1) \<Rightarrow> (Failed (ProviderError e), s1)
      | (Inr response, s1) \<Rightarrow>
          (case first_instance response of
             Inl e \<Rightarrow> (Failed (ProviderError e), s1)
           | Inr inst \<Rightarrow>
               let tags = tags_dict (get_Tags inst) in
               if \<not> is_managed (tag_created_by cfg) tags then (Failed NotManaged, s1)
               else
                 (case start_instances [instance_id] s1 of
                    (Inl e, s2) \<Rightarrow> (Failed (ProviderError e), s2)
                  | (Inr _, s2) \<Rightarrow> (Success, s2))))"

text \<open>
  The answer of the operator to \<^verbatim>\<open>click.confirm('Are you sure?')\<close> is the argument
  \<open>confirm\<close>; the prompt is reached only after the ownership test has passed.
\<close>

definition ec2_terminate :: "config \<Rightarrow> string \<Rightarrow> bool \<Rightarrow> state \<Rightarrow> result \<times> state" where
  "ec2_terminate cfg instance_id confirm s =
     (case describe_instances [] [instance_id] s of
        (Inl e, s1) \<Rightarrow> (Failed (ProviderError e), s1)
      | (Inr response, s1) \<Rightarrow>
          (case first_instance response of
             Inl e \<Rightarrow> (Failed (ProviderError e), s1)
           | Inr inst \<Rightarrow>
               let tags = tags_dict (get_Tags inst) in
               if \<not> is_managed (tag_created_by cfg) tags then (Failed NotManaged, s1)
               else if confirm then
                 (case terminate_instances [instance_id] s1 of
                    (Inl e, s2) \<Rightarrow> (Failed (ProviderError e), s2)
                  | (Inr _, s2) \<Rightarrow> (Success, s2))
               else (Cancelled, s1)))"


section \<open>Storage commands of the command line (s3.py)\<close>

text \<open>
  \<^verbatim>\<open>bucket_name.lower()\<close> on the letters A to Z; other characters of a bucket name are not
  letters with a lower case.
\<close>

definition lower_char :: "char \<Rightarrow> char" where
  "lower_char c =
     (if 65 \<le> (of_char c :: nat) \<and> (of_char c :: nat) \<le> 90 then char_of ((of_char c :: nat) + 32) else c)"

definition lower :: "string \<Rightarrow> string" where
  "lower s = map lower_char s"

text \<open>
  The handler of \<^verbatim>\<open>create\<close> is \<^verbatim>\<open>except ClientError\<close>: any other exception leaves the
  command.
\<close>

definition s3_handle :: "exn \<Rightarrow> result" where
  "s3_handle e = (if e = ClientError then Failed (ProviderError e) else Crashed e)"

text \<open>
  With no region configured the request is built with a location constraint of \<^verbatim>\<open>None\<close>,
  which the client library rejects before anything is sent.
\<close>

definition s3_create_bucket :: "string \<Rightarrow> string option \<Rightarrow> state \<Rightarrow> (exn + unit) \<times> state" where
  "s3_create_bucket bucket_name region s =
     (if region = Some ''us-east-1'' then create_bucket bucket_name None s
      else case region of
             None \<Rightarrow> (Inl BotoCoreError, s)
           | Some r \<Rightarrow> create_bucket bucket_name (Some r) s)"

definition s3_create :: "config \<Rightarrow> string \<Rightarrow> bool \<Rightarrow> bool \<Rightarrow> state \<Rightarrow> result \<times> state" where
  "s3_create cfg bucket_name0 public confirm s =
     (let bucket_name = lower bucket_name0; region = aws_region cfg in
      if public \<and> \<not> confirm then (Cancelled, s)
      else
        case s3_create_bucket bucket_name region s of
          (Inl e, s1) \<Rightarrow> (s3_handle e, s1)
        | (Inr _, s1) \<Rightarrow>
            (case put_bucket_tagging bucket_name
                    [(''CreatedBy'', tag_created_by cfg), (''Owner'', tag_owner cfg)] s1 of
               (Inl e, s2) \<Rightarrow> (s3_handle e, s2)
             | (Inr _, s2) \<Rightarrow>
                 (if public then
                    (case delete_public_access_block bucket_name s2 of
                       (Inl e, s3) \<Rightarrow> (s3_handle e, s3)
                     | (Inr _, s3) \<Rightarrow> (Success, s3))
                  else
                    (case put_public_access_block bucket_name True True True True s2 of
                       (Inl e, s3) \<Rightarrow> (s3_handle e, s3)
                     | (Inr _, s3) \<Rightarrow> (Success, s3)))))"

text \<open>
  The loop of \<^verbatim>\<open>list\<close> over the buckets. A \<^verbatim>\<open>ClientError\<close> of the tag request skips the
  bucket; any other exception ends the loop and reaches the outer handler. The lines
  printed so far stay printed.
\<close>

fun s3_list_loop :: "config \<Rightarrow> bucket_row list \<Rightarrow> state \<Rightarrow> (exn option \<times> bucket_row list) \<times> state" where
  "s3_list_loop cfg [] s = ((None, []), s)"
| "s3_list_loop cfg (b # bs) s =
     (case get_bucket_tagging (fst b) s of
        (Inl e, s1) \<Rightarrow>
          (if e = ClientError then s3_list_loop cfg bs s1 else ((Some e, []), s1))
      | (Inr ts, s1) \<Rightarrow>
          (if is_managed (tag_created_by cfg) (tags_dict ts)
           then (case s3_list_loop cfg bs s1 of ((r, rows), s2) \<Rightarrow> ((r, b # rows), s2))
           else s3_list_loop cfg bs s1))"

definition s3_list :: "config \<Rightarrow> state \<Rightarrow> (result \<times> bucket_row list) \<times> state" where
  "s3_list cfg s =
     (case list_buckets s of
        (Inl e, s1) \<Rightarrow> ((Failed (ProviderError e), []), s1)
      | (Inr response, s1) \<Rightarrow>
          (case s3_list_loop cfg response s1 of
             ((None, rows), s2) \<Rightarrow> ((Success, rows), s2)
           | ((Some e, rows), s2) \<Rightarrow> ((Failed (ProviderError e), rows), s2)))"

section \<open>Name-service commands of the command line (route53.py)\<close>

text \<open>
  The loop of \<^verbatim>\<open>list\<close> over the zones; the inner handler is \<^verbatim>\<open>except Exception\<close>, so every
  failure of a tag request skips the zone.
\<close>

fun route53_list_loop :: "config \<Rightarrow> hosted_zone list \<Rightarrow> state \<Rightarrow> hosted_zone list \<times> state" where
  "route53_list_loop cfg [] s = ([], s)"
| "route53_list_loop cfg (z # zs) s =
     (let zone_id = after_last_slash (fst z) in
      case list_tags_for_resource ''hostedzone'' zone_id s of
        (Inl e, s1) \<Rightarrow> route53_list_loop cfg zs s1
      | (Inr ts, s1) \<Rightarrow>
          (if is_managed (tag_created_by cfg) (tags_dict ts)
           then (case route53_list_loop cfg zs s1 of
                   (rows, s2) \<Rightarrow> ((zone_id, fst (snd z), snd (snd z)) # rows, s2))
           else route53_list_loop cfg zs s1))"

definition route53_list :: "config \<Rightarrow> state \<Rightarrow> (result \<times> hosted_zone list) \<times> state" where
  "route53_list cfg s =
     (case list_hosted_zones s of
        (Inl e, s1) \<Rightarrow> ((Failed (ProviderError e), []), s1)
      | (Inr response, s1) \<Rightarrow>
          (case route53_list_loop cfg response s1 of (rows, s2) \<Rightarrow> ((Success, rows), s2)))"

definition a_record :: "string \<Rightarrow> string \<Rightarrow> rrset" where
  "a_record full_record_name ip_address =
     \<lparr>rr_name = full_record_name, rr_type = ''A'', rr_ttl = Some 300, rr_values = [ip_address]\<rparr>"

definition add_record :: "config \<Rightarrow> string \<Rightarrow> string \<Rightarrow> string \<Rightarrow> state \<Rightarrow> result \<times> state" where
  "add_record cfg zone_id subdomain ip_address s =
     (case list_tags_for_resource ''hostedzone'' zone_id s of
        (Inl e, s1) \<Rightarrow> (Failed (ProviderError e), s1)
      | (Inr ts, s1) \<Rightarrow>
          (if \<not> is_managed (tag_created_by cfg) (tags_dict ts) then (Failed NotManaged, s1)
           else
             case get_hosted_zone zone_id s1 of
               (Inl e, s2) \<Rightarrow> (Failed (ProviderError e), s2)
             | (Inr zone_name, s2) \<Rightarrow>
                 (let full_record_name = subdomain @ ''.'' @ zone_name in
                  case change_resource_record_sets zone_id UPSERT
                         (a_record full_record_name ip_address) s2 of
                    (Inl e, s3) \<Rightarrow> (Failed (ProviderError e), s3)
                  | (Inr _, s3) \<Rightarrow> (Success, s3))))"

definition delete_record :: "config \<Rightarrow> string \<Rightarrow> string \<Rightarrow> string \<Rightarrow> state \<Rightarrow> result \<times> state" where
  "delete_record cfg zone_id subdomain ip_address s =
     (case list_tags_for_resource ''hostedzone'' zone_id s of
        (Inl e, s1) \<Rightarrow> (Failed (ProviderError e), s1)
      | (Inr ts, s1) \<Rightarrow>
          (if \<not> is_managed (tag_created_by cfg) (tags_dict ts) then (Failed NotManaged, s1)
           else
             case get_hosted_zone zone_id s1 of
               (Inl e, s2) \<Rightarrow> (Failed (ProviderError e), s2)
             | (Inr zone_name, s2) \<Rightarrow>
                 (let full_record_name = subdomain @ ''.'' @ zone_name in
                  case change_resource_record_sets zone_id DELETE
                         (a_record full_record_name ip_address) s2 of
                    (Inl e, s3) \<Rightarrow> (Failed (ProviderError e), s3)
                  | (Inr _, s3) \<Rightarrow> (Success, s3))))"


section \<open>The interactive front end (app.py)\<close>

text \<open>
  The page is a script that runs from top to bottom once for every interaction; a button
  is true only in the run its click starts, and a selection box answers one of the
  options it was given in that run (the first one when the stored choice is out of
  range). A run ends early at \<^verbatim>\<open>st.rerun()\<close>. Each function below is one run of one
  section of the page, with the widget values as arguments.
\<close>

definition selectbox :: "'a list \<Rightarrow> nat \<Rightarrow> 'a" where
  "selectbox options choice = options ! (if choice < length options then choice else 0)"

subsection \<open>Instances: list and management buttons\<close>

definition ui_ec2_row_of :: "ec2_instance \<Rightarrow> ec2_row" where
  "ui_ec2_row_of i =
     (inst_id i,
      (case tags_dict (get_Tags i) ''Name'' of None \<Rightarrow> ''Unknown'' | Some n \<Rightarrow> n),
      inst_state i,
      inst_type i,
      (case inst_public_ip i of None \<Rightarrow> ''No IP'' | Some a \<Rightarrow> a))"

datatype ec2_button = Start | Stop | Terminate

definition ui_ec2 :: "config \<Rightarrow> nat \<Rightarrow> ec2_button option \<Rightarrow> state \<Rightarrow> (result \<times> ec2_row list) \<times> state" where
  "ui_ec2 cfg choice button s =
     (case describe_instances [(''tag:CreatedBy'', [tag_created_by cfg])] [] s of
        (Inl e, s1) \<Rightarrow> ((Failed (ProviderError e), []), s1)
      | (Inr response, s1) \<Rightarrow>
          (let data = map ui_ec2_row_of
                        (filter (\<lambda>i. inst_state i \<noteq> ''terminated'') (concat response)) in
           if data = [] then ((Success, data), s1)
           else
             let selected_id = selectbox (map fst data) choice in
             case button of
               None \<Rightarrow> ((Success, data), s1)
             | Some Start \<Rightarrow>
                 (case start_instances [selected_id] s1 of
                    (Inl e, s2) \<Rightarrow> ((Failed (ProviderError e), data), s2)
                  | (Inr _, s2) \<Rightarrow> ((Success, data), s2))
             | Some Stop \<Rightarrow>
                 (case stop_instances [selected_id] s1 of
                    (Inl e, s2) \<Rightarrow> ((Failed (ProviderError e), data), s2)
                  | (Inr _, s2) \<Rightarrow> ((Success, data), s2))
             | Some Terminate \<Rightarrow>
                 (case terminate_instances [selected_id] s1 of
                    (Inl e, s2) \<Rightarrow> ((Failed (ProviderError e), data), s2)
                  | (Inr _, s2) \<Rightarrow> ((Success, data), s2))))"

subsection \<open>Instances: launch form\<close>

text \<open>
  The launch form of the page: the type comes from a box with the two allowed types, and
  a click on "Launch Instance" looks the image up and launches at once. The form asks
  the provider for no count of the instances.
\<close>

definition ui_ec2_launch :: "config \<Rightarrow> string \<Rightarrow> string \<Rightarrow> nat \<Rightarrow> state \<Rightarrow> result \<times> state" where
  "ui_ec2_launch cfg name key_name type_choice s =
     (let instance_type = selectbox [''t3.micro'', ''t3.small''] type_choice in
      case get_latest_ami s of
        (Inl e, s1) \<Rightarrow> (Failed (ProviderError e), s1)
      | (Inr ami_id, s1) \<Rightarrow>
          (case run_instances ami_id instance_type key_name
                  [(''Name'', name), (''CreatedBy'', tag_created_by cfg),
                   (''Owner'', tag_owner cfg)] s1 of
             (Inl e, s2) \<Rightarrow> (Failed (ProviderError e), s2)
           | (Inr _, s2) \<Rightarrow> (Success, s2)))"

subsection \<open>Buckets: creation form and list\<close>

text \<open>
  The region of the page has the default \<^verbatim>\<open>us-east-1\<close>. The box "I understand the risks"
  exists only when "Make Public?" is ticked; \<open>understood\<close> is its value.
\<close>

definition ui_region :: "config \<Rightarrow> string" where
  "ui_region cfg = (case aws_region cfg of None \<Rightarrow> ''us-east-1'' | Some r \<Rightarrow> r)"

definition ui_s3_create :: "config \<Rightarrow> string \<Rightarrow> bool \<Rightarrow> bool \<Rightarrow> state \<Rightarrow> result \<times> state" where
  "ui_s3_create cfg b_name is_public understood s =
     (let confirm = (if is_public then understood else True) in
      if b_name = [] then (Failed InvalidConfiguration, s)
      else if \<not> confirm then (Cancelled, s)
      else
        case (if ui_region cfg = ''us-east-1'' then create_bucket b_name None s
              else create_bucket b_name (Some (ui_region cfg)) s) of
          (Inl e, s1) \<Rightarrow> (Failed (ProviderError e), s1)
        | (Inr _, s1) \<Rightarrow>
            (case put_bucket_tagging b_name
                    [(''CreatedBy'', tag_created_by cfg), (''Owner'', tag_owner cfg)] s1 of
               (Inl e, s2) \<Rightarrow> (Failed (ProviderError e), s2)
             | (Inr _, s2) \<Rightarrow>
                 (if is_public then
                    (case delete_public_access_block b_name s2 of
                       (Inl e, s3) \<Rightarrow> (Failed (ProviderError e), s3)
                     | (Inr _, s3) \<Rightarrow> (Success, s3))
                  else
                    (case put_public_access_block b_name True True True True s2 of
                       (Inl e, s3) \<Rightarrow> (Failed (ProviderError e), s3)
                     | (Inr _, s3) \<Rightarrow> (Success, s3)))))"

text \<open>The inner handler of the bucket loop is a bare \<^verbatim>\<open>except\<close>.\<close>

fun ui_s3_list_loop :: "config \<Rightarrow> bucket_row list \<Rightarrow> state \<Rightarrow> string list \<times> state" where
  "ui_s3_list_loop cfg [] s = ([], s)"
| "ui_s3_list_loop cfg (b # bs) s =
     (case get_bucket_tagging (fst b) s of
        (Inl e, s1) \<Rightarrow> ui_s3_list_loop cfg bs s1
      | (Inr ts, s1) \<Rightarrow>
          (if is_managed (tag_created_by cfg) (tags_dict ts)
           then (case ui_s3_list_loop cfg bs s1 of (my_buckets, s2) \<Rightarrow> (fst b # my_buckets, s2))
           else ui_s3_list_loop cfg bs s1))"

definition ui_s3_list :: "config \<Rightarrow> state \<Rightarrow> (result \<times> string list) \<times> state" where
  "ui_s3_list cfg s =
     (case list_buckets s of
        (Inl e, s1) \<Rightarrow> ((Failed (ProviderError e), []), s1)
      | (Inr resp, s1) \<Rightarrow>
          (case ui_s3_list_loop cfg resp s1 of (my_buckets, s2) \<Rightarrow> ((Success, my_buckets), s2)))"

subsection \<open>Zones: list, add record, delete record\<close>

text \<open>
  \<^verbatim>\<open>my_zones[z_name] = zid\<close> on a dictionary that keeps its keys in the order of their
  first insertion.
\<close>

fun dict_set :: "'k \<Rightarrow> 'v \<Rightarrow> ('k \<times> 'v) list \<Rightarrow> ('k \<times> 'v) list" where
  "dict_set k v [] = [(k, v)]"
| "dict_set k v (p # ps) = (if fst p = k then (k, v) # ps else p # dict_set k v ps)"

fun ui_zone_loop ::
    "config \<Rightarrow> hosted_zone list \<Rightarrow> (string \<times> string) list \<Rightarrow> hosted_zone list \<Rightarrow> state
     \<Rightarrow> ((string \<times> string) list \<times> hosted_zone list) \<times> state" where
  "ui_zone_loop cfg [] my_zones table_data s = ((my_zones, table_data), s)"
| "ui_zone_loop cfg (z # zs) my_zones table_data s =
     (let zid = after_last_slash (fst z); z_name = fst (snd z) in
      case list_tags_for_resource ''hostedzone'' zid s of
        (Inl e, s1) \<Rightarrow> ui_zone_loop cfg zs my_zones table_data s1
      | (Inr ts, s1) \<Rightarrow>
          (if is_managed (tag_created_by cfg) (tags_dict ts)
           then ui_zone_loop cfg zs (dict_set z_name zid my_zones)
                  (table_data @ [(z_name, zid, snd (snd z))]) s1
           else ui_zone_loop cfg zs my_zones table_data s1))"

text \<open>
  The loop over the address records of the selected zone. Each row reads the first value
  of the record (an exception when there is none) and has a delete button whose key is
  the name of the record; \<open>clicked\<close> is the key of the button that started the run. A
  deletion sends the name, time-to-live and first value read from the listing.
\<close>

fun ui_records_loop :: "string \<Rightarrow> rrset list \<Rightarrow> string option \<Rightarrow> state \<Rightarrow> result \<times> state" where
  "ui_records_loop target_zone_id [] clicked s = (Success, s)"
| "ui_records_loop target_zone_id (rec # recs) clicked s =
     (case rr_values rec of
        [] \<Rightarrow> (Failed (ProviderError IndexError), s)
      | r_val # _ \<Rightarrow>
          (let r_name = rr_name rec;
               r_ttl = (case rr_ttl rec of None \<Rightarrow> 300 | Some t \<Rightarrow> t) in
           if clicked = Some r_name then
             (case change_resource_record_sets target_zone_id DELETE
                     \<lparr>rr_name = r_name, rr_type = ''A'', rr_ttl = Some r_ttl, rr_values = [r_val]\<rparr> s of
                (Inl e, s1) \<Rightarrow> (Failed (ProviderError e), s1)
              | (Inr _, s1) \<Rightarrow> (Success, s1))
           else ui_records_loop target_zone_id recs clicked s))"

definition ui_records :: "string \<Rightarrow> string option \<Rightarrow> state \<Rightarrow> result \<times> state" where
  "ui_records target_zone_id clicked s =
     (case list_resource_record_sets target_zone_id s of
        (Inl e, s1) \<Rightarrow> (Failed (ProviderError e), s1)
      | (Inr records, s1) \<Rightarrow>
          ui_records_loop target_zone_id (filter (\<lambda>r. rr_type r = ''A'') records) clicked s1)"

datatype dns_button = AddRecord string string | DeleteRecord string

definition ui_dns ::
    "config \<Rightarrow> nat \<Rightarrow> dns_button option \<Rightarrow> state \<Rightarrow> (result \<times> hosted_zone list) \<times> state" where
  "ui_dns cfg choice button s =
     (case list_hosted_zones s of
        (Inl e, s1) \<Rightarrow> ((Failed (ProviderError e), []), s1)
      | (Inr all_zones, s1) \<Rightarrow>
          (case ui_zone_loop cfg all_zones [] [] s1 of
             ((my_zones, table_data), s2) \<Rightarrow>
               if table_data = [] then ((Success, table_data), s2)
               else
                 let target_zone_name = selectbox (map fst my_zones) choice in
                 case map_of my_zones target_zone_name of
                   None \<Rightarrow> ((Failed (ProviderError KeyError), table_data), s2)
                 | Some target_zone_id \<Rightarrow>
                     (case button of
                        Some (AddRecord sub ip) \<Rightarrow>
                          (let full_name = sub @ ''.'' @ target_zone_name in
                           case change_resource_record_sets target_zone_id UPSERT
                                  (a_record full_name ip) s2 of
                             (Inr _, s3) \<Rightarrow> ((Success, table_data), s3)
                           | (Inl e, s3) \<Rightarrow>
                               (case ui_records target_zone_id None s3 of
                                  (_, s4) \<Rightarrow> ((Failed (ProviderError e), table_data), s4)))
                      | Some (DeleteRecord key) \<Rightarrow>
                          (case ui_records target_zone_id (Some key) s2 of
                             (r, s3) \<Rightarrow> ((r, table_data), s3))
                      | None \<Rightarrow>
                          (case ui_records target_zone_id None s2 of
                             (r, s3) \<Rightarrow> ((r, table_data), s3)))))"


section \<open>Notions used in the statements\<close>

text \<open>
  The request with which \<^verbatim>\<open>create\<close> counts the instances, and the instances that
  request selects: those that carry the \<^verbatim>\<open>CreatedBy\<close> tag of the tool and are in one of
  the four listed states.
\<close>

definition count_request :: "config \<Rightarrow> call" where
  "count_request cfg =
     DescribeInstances
       [(''tag:CreatedBy'', [tag_created_by cfg]),
        (''instance-state-name'', [''running'', ''pending'', ''stopping'', ''stopped''])] []"

definition counts_toward_cap :: "config \<Rightarrow> ec2_instance \<Rightarrow> bool" where
  "counts_toward_cap cfg i =
     ((''CreatedBy'', tag_created_by cfg) \<in> set (get_Tags i)
      \<and> inst_state i \<in> {''running'', ''pending'', ''stopping'', ''stopped''})"

subsection \<open>Example configuration and worlds\<close>

definition example_cfg :: config where
  "example_cfg =
     \<lparr>tag_created_by = ''platform-cli'', tag_owner = ''student'', aws_region = Some ''eu-central-1''\<rparr>"

definition example_instance :: "string \<Rightarrow> string \<Rightarrow> string \<Rightarrow> ec2_instance" where
  "example_instance iid owner st =
     \<lparr>inst_id = iid,
      inst_tags = Some [(''Name'', ''srv''), (''CreatedBy'', ''platform-cli''), (''Owner'', owner)],
      inst_state = st, inst_type = ''t3.micro'', inst_public_ip = None\<rparr>"

definition empty_world :: world where
  "empty_world =
     \<lparr>reservations = [], ssm_parameters = [SSM_AMI_PATH \<mapsto> ''ami-1''],
      new_instance_ids = [''i-new''], buckets = [], zones = [], clock = ''2024-01-01'',
      fault = (\<lambda>_. None)\<rparr>"

definition two_running :: world where
  "two_running = empty_world\<lparr>reservations :=
     [[example_instance ''i-1'' ''alice'' ''running''],
      [example_instance ''i-2'' ''alice'' ''stopped'']]\<rparr>"

definition two_running_bob :: world where
  "two_running_bob = empty_world\<lparr>reservations :=
     [[example_instance ''i-1'' ''bob'' ''running''],
      [example_instance ''i-2'' ''bob'' ''stopped'']]\<rparr>"

definition one_running :: world where
  "one_running = empty_world\<lparr>reservations := [[example_instance ''i-1'' ''student'' ''running'']]\<rparr>"

text \<open>
  The record sets of a zone, and the world in which the record sets of a zone have been
  replaced (what a successful change leaves).
\<close>

definition records_of :: "world \<Rightarrow> string \<Rightarrow> rrset list" where
  "records_of w zid = (case find_zone w zid of None \<Rightarrow> [] | Some z \<Rightarrow> zone_records z)"

definition set_records :: "string \<Rightarrow> rrset list \<Rightarrow> world \<Rightarrow> world" where
  "set_records zid rs w =
     w\<lparr>zones := map (\<lambda>z'. if after_last_slash (zone_Id z') = after_last_slash zid
                              then z'\<lparr>zone_records := rs\<rparr> else z') (zones w)\<rparr>"

definition dns_world :: world where
  "dns_world = empty_world\<lparr>zones :=
     [\<lparr>zone_Id = ''/hostedzone/Z1'', zone_Name = ''example.com.'',
       zone_tags = [(''CreatedBy'', ''platform-cli''), (''Owner'', ''student'')],
       zone_records =
         [\<lparr>rr_name = ''example.com.'', rr_type = ''NS'', rr_ttl = Some 172800,
           rr_values = [''ns-1.example.net.'']\<rparr>,
          \<lparr>rr_name = ''www.example.com.'', rr_type = ''A'', rr_ttl = Some 60,
           rr_values = [''1.2.3.4'']\<rparr>]\<rparr>,
      \<lparr>zone_Id = ''/hostedzone/Z2'', zone_Name = ''other.org.'',
       zone_tags = [(''CreatedBy'', ''terraform''), (''Owner'', ''student'')],
       zone_records = []\<rparr>]\<rparr>"

text \<open>
  What the tag request for a zone or a bucket answers in a world, the entries of a
  listing whose tag request is answered with managed tags, and the requests a listing
  loop sends.
\<close>

definition zone_tag_fetch :: "world \<Rightarrow> string \<Rightarrow> exn + tag list" where
  "zone_tag_fetch w zid = fst (list_tags_for_resource ''hostedzone'' zid (w, []))"

definition bucket_tag_fetch :: "world \<Rightarrow> string \<Rightarrow> exn + tag list" where
  "bucket_tag_fetch w name = fst (get_bucket_tagging name (w, []))"

definition zone_listed :: "config \<Rightarrow> world \<Rightarrow> hosted_zone \<Rightarrow> bool" where
  "zone_listed cfg w z =
     (case zone_tag_fetch w (after_last_slash (fst z)) of
        Inl e \<Rightarrow> False
      | Inr ts \<Rightarrow> is_managed (tag_created_by cfg) (tags_dict ts))"

definition bucket_listed :: "config \<Rightarrow> world \<Rightarrow> bucket_row \<Rightarrow> bool" where
  "bucket_listed cfg w b =
     (case bucket_tag_fetch w (fst b) of
        Inl e \<Rightarrow> False
      | Inr ts \<Rightarrow> is_managed (tag_created_by cfg) (tags_dict ts))"

definition zone_tag_requests :: "hosted_zone list \<Rightarrow> call list" where
  "zone_tag_requests zs = map (\<lambda>z. ListTagsForResource ''hostedzone'' (after_last_slash (fst z))) zs"

definition bucket_tag_requests :: "bucket_row list \<Rightarrow> call list" where
  "bucket_tag_requests bs = map (\<lambda>b. GetBucketTagging (fst b)) bs"

definition listed_buckets :: "world \<Rightarrow> bucket_row list" where
  "listed_buckets w = map (\<lambda>b. (bucket_Name b, bucket_creation_date b)) (buckets w)"

definition listed_zones :: "world \<Rightarrow> hosted_zone list" where
  "listed_zones w = map (\<lambda>z. (zone_Id z, zone_Name z, length (zone_records z))) (zones w)"

definition listing_request :: "config \<Rightarrow> call" where
  "listing_request cfg = DescribeInstances [(''tag:CreatedBy'', [tag_created_by cfg])] []"

definition bucket_world :: world where
  "bucket_world = empty_world\<lparr>buckets :=
     [\<lparr>bucket_Name = ''b1'', bucket_creation_date = ''2024-01-01'',
       bucket_tagset = Some [(''CreatedBy'', ''platform-cli''), (''Owner'', ''student'')],
       bucket_public_access_block = Some (True, True, True, True)\<rparr>,
      \<lparr>bucket_Name = ''b2'', bucket_creation_date = ''2024-01-02'',
       bucket_tagset = None,
       bucket_public_access_block = Some (True, True, True, True)\<rparr>,
      \<lparr>bucket_Name = ''b3'', bucket_creation_date = ''2024-01-03'',
       bucket_tagset = Some [(''CreatedBy'', ''platform-cli''), (''Owner'', ''student'')],
       bucket_public_access_block = None\<rparr>,
      \<lparr>bucket_Name = ''b4'', bucket_creation_date = ''2024-01-04'',
       bucket_tagset = Some [(''CreatedBy'', ''terraform'')],
       bucket_public_access_block = None\<rparr>]\<rparr>"

definition bucket_world_timeout :: world where
  "bucket_world_timeout =
     bucket_world\<lparr>fault := (\<lambda>c. if c = GetBucketTagging ''b2'' then Some BotoCoreError else None)\<rparr>"

definition mixed_world :: world where
  "mixed_world = dns_world\<lparr>
     reservations :=
       [[example_instance ''i-1'' ''student'' ''running'',
         example_instance ''i-2'' ''student'' ''terminated''],
        [\<lparr>inst_id = ''i-3'', inst_tags = Some [(''CreatedBy'', ''terraform'')],
          inst_state = ''running'', inst_type = ''t3.large'', inst_public_ip = Some ''10.0.0.3''\<rparr>,
         \<lparr>inst_id = ''i-4'', inst_tags = None,
          inst_state = ''running'', inst_type = ''t3.micro'', inst_public_ip = None\<rparr>]],
     buckets := buckets bucket_world,
     fault := (\<lambda>c. if c = ListTagsForResource ''hostedzone'' ''Z2'' then Some BotoCoreError else None)\<rparr>"

subsection \<open>The ownership guard\<close>

text \<open>
  The resources a request acts on: the instances named by a start, stop or terminate
  request, the zone named by a change of record sets. \<open>mutates\<close> holds of the requests
  that change something at the provider.
\<close>

datatype resource = Instance string | Zone string

definition targets :: "call \<Rightarrow> resource list" where
  "targets c =
     (case c of
        StartInstances ids \<Rightarrow> map Instance ids
      | StopInstances ids \<Rightarrow> map Instance ids
      | TerminateInstances ids \<Rightarrow> map Instance ids
      | ChangeResourceRecordSets zid a r \<Rightarrow> [Zone zid]
      | _ \<Rightarrow> [])"

definition mutates :: "call \<Rightarrow> bool" where
  "mutates c =
     (case c of
        RunInstances a b c d \<Rightarrow> True
      | StartInstances ids \<Rightarrow> True
      | StopInstances ids \<Rightarrow> True
      | TerminateInstances ids \<Rightarrow> True
      | CreateBucket n l \<Rightarrow> True
      | PutBucketTagging n ts \<Rightarrow> True
      | DeletePublicAccessBlock n \<Rightarrow> True
      | PutPublicAccessBlock n a b c d \<Rightarrow> True
      | ChangeResourceRecordSets zid a r \<Rightarrow> True
      | _ \<Rightarrow> False)"

text \<open>
  What the guard of \<^verbatim>\<open>stop\<close>, \<^verbatim>\<open>start\<close> and \<^verbatim>\<open>terminate\<close> reads: the first instance of
  the answer to \<^verbatim>\<open>describe_instances(InstanceIds=[instance_id])\<close>.
\<close>

definition instance_fetch :: "world \<Rightarrow> string \<Rightarrow> exn + ec2_instance" where
  "instance_fetch w iid =
     (case fst (describe_instances [] [iid] (w, [])) of
        Inl e \<Rightarrow> Inl e
      | Inr response \<Rightarrow> first_instance response)"

text \<open>
  A request has fetched the tags of a resource when it was answered and its answer holds
  them: a \<^verbatim>\<open>describe_instances\<close> whose answer contains the instance, a
  \<^verbatim>\<open>list_tags_for_resource\<close> for the zone. A resource is managed when its tags at the
  provider pass the ownership test.
\<close>

definition tags_fetched_by :: "world \<Rightarrow> call \<Rightarrow> resource \<Rightarrow> bool" where
  "tags_fetched_by w f r =
     (case f of
        DescribeInstances fs ids \<Rightarrow>
          (case r of
             Instance x \<Rightarrow>
               (case fst (describe_instances fs ids (w, [])) of
                  Inl e \<Rightarrow> False
                | Inr response \<Rightarrow> x \<in> inst_id ` set (concat response))
           | Zone z \<Rightarrow> False)
      | ListTagsForResource rt zid \<Rightarrow>
          rt = ''hostedzone'' \<and> r = Zone zid
          \<and> (case zone_tag_fetch w zid of Inl e \<Rightarrow> False | Inr ts \<Rightarrow> True)
      | _ \<Rightarrow> False)"

definition managed_resource :: "config \<Rightarrow> world \<Rightarrow> resource \<Rightarrow> bool" where
  "managed_resource cfg w r =
     (case r of
        Instance x \<Rightarrow>
          (\<exists>i \<in> set (concat (reservations w)).
             inst_id i = x \<and> is_managed (tag_created_by cfg) (tags_dict (get_Tags i)))
      | Zone zid \<Rightarrow>
          (case find_zone w zid of
             None \<Rightarrow> False
           | Some z \<Rightarrow> is_managed (tag_created_by cfg) (tags_dict (zone_tags z))))"

text \<open>
  A sequence of requests is guarded when each request in it that changes something acts
  on resources only that are managed and whose tags an earlier request of the sequence
  (or of \<open>seen\<close>) has fetched. A run is guarded when the requests it added to the trace
  are.
\<close>

fun guarded :: "config \<Rightarrow> world \<Rightarrow> call list \<Rightarrow> call list \<Rightarrow> bool" where
  "guarded cfg w seen [] = True"
| "guarded cfg w seen (c # cs) =
     ((if mutates c
       then targets c \<noteq> []
            \<and> list_all (\<lambda>r. managed_resource cfg w r \<and> list_ex (\<lambda>f. tags_fetched_by w f r) seen)
                 (targets c)
       else True)
      \<and> guarded cfg w (seen @ [c]) cs)"

definition run_guarded :: "config \<Rightarrow> state \<Rightarrow> state \<Rightarrow> bool" where
  "run_guarded cfg s s' =
     (take (length (snd s)) (snd s') = snd s
      \<and> guarded cfg (fst s) [] (drop (length (snd s)) (snd s')))"

section \<open>Properties of the ownership test\<close>

lemma fold_tags: "fold (\<lambda>t m. m(fst t \<mapsto> snd t)) ts m = m ++ map_of (rev ts)"
  by (induction ts arbitrary: m) (auto simp: map_add_def fun_eq_iff split: option.splits)

lemma tags_dict_map_of: "tags_dict ts = map_of (rev ts)"
  by (simp add: tags_dict_def fold_tags)

lemma tags_dict_filter_key: "tags_dict (filter (\<lambda>t. fst t = k) ts) k = tags_dict ts k"
  unfolding tags_dict_map_of
  by (induction ts) (auto simp: map_add_def split: option.splits)

text \<open>
  C2. The ownership test holds of a tag dictionary exactly when its entry for
  \<^verbatim>\<open>CreatedBy\<close> is the configured identifier. Setting or removing any other key (such as
  \<^verbatim>\<open>Owner\<close>) does not change it; on a tag list only the \<^verbatim>\<open>CreatedBy\<close> entries matter; and
  a resource with no tags is not managed.
\<close>

theorem is_managed_iff:
  "(is_managed t tags \<longleftrightarrow> tags ''CreatedBy'' = Some t)
   \<and> (k \<noteq> ''CreatedBy'' \<longrightarrow> is_managed t (tags(k := x)) = is_managed t tags)
   \<and> is_managed t (tags_dict ts) = is_managed t (tags_dict (filter (\<lambda>p. fst p = ''CreatedBy'') ts))
   \<and> \<not> is_managed t (tags_dict [])
   \<and> \<not> is_managed t Map.empty"
  by (simp add: is_managed_def tags_dict_filter_key) (simp add: tags_dict_def)

theorem is_managed_iff_witness:
  "''Owner'' \<noteq> ''CreatedBy''
   \<and> is_managed ''platform-cli''
        ((tags_dict [(''CreatedBy'', ''platform-cli'')])(''Owner'' \<mapsto> ''someone''))
   \<and> \<not> is_managed ''platform-cli''
          ((tags_dict [(''CreatedBy'', ''other'')])(''Owner'' \<mapsto> ''student''))"
  using is_managed_iff [of "''platform-cli''" "tags_dict [(''CreatedBy'', ''platform-cli'')]"
                           "''Owner''" "Some ''someone''" "[]"]
        is_managed_iff [of "''platform-cli''" "tags_dict [(''CreatedBy'', ''other'')]"
                           "''Owner''" "Some ''student''" "[]"]
  by (simp add: tags_dict_def)

section \<open>The provider requests\<close>

lemma api_pair:
  "api c sem (w, tr) =
     (case fault w c of
        Some e \<Rightarrow> (Inl e, (w, tr @ [c]))
      | None \<Rightarrow> (case sem w of (r, w') \<Rightarrow> (r, (w', tr @ [c]))))"
  by (simp add: api_def)

section \<open>The instance cap\<close>

lemma count_reservations:
  "sum_list (map length (filter (\<lambda>r. r \<noteq> []) (map (filter P) rs))) = length (filter P (concat rs))"
  by (induction rs) auto

lemma quota_filters_match:
  "(\<forall>f \<in> set [(''tag:CreatedBy'', [tag_created_by cfg]),
        (''instance-state-name'', [''running'', ''pending'', ''stopping'', ''stopped''])]. filter_matches f i)
   = counts_toward_cap cfg i"
  by (auto simp: filter_matches_def counts_toward_cap_def)

lemma ec2_create_allowed:
  assumes "instance_type \<in> set ALLOWED_TYPES"
  shows "ec2_create cfg instance_type key_name name (w, tr) =
     (case fault w (count_request cfg) of
        Some e \<Rightarrow> (Crashed e, (w, tr @ [count_request cfg]))
      | None \<Rightarrow>
          if 2 \<le> length (filter (counts_toward_cap cfg) (concat (reservations w)))
          then (Failed QuotaExceeded, (w, tr @ [count_request cfg]))
          else
            (case get_latest_ami (w, tr @ [count_request cfg]) of
                (Inl e, s2) \<Rightarrow> (Failed (ProviderError e), s2)
              | (Inr latest_ami, s2) \<Rightarrow>
                  (case run_instances latest_ami instance_type key_name
                          [(''Name'', name), (''CreatedBy'', tag_created_by cfg),
                           (''Owner'', tag_owner cfg)] s2 of
                     (Inl e, s3) \<Rightarrow> (Failed (ProviderError e), s3)
                   | (Inr instance_id, s3) \<Rightarrow> (Success, s3))))"
  using assms quota_filters_match[of cfg]
  by (simp add: ec2_create_def describe_instances_def api_pair count_request_def
        count_reservations MAX_INSTANCES_def Let_def split: option.splits)


lemma two_running_count:
  "length (filter (counts_toward_cap example_cfg) (concat (reservations two_running))) = 2"
  by (simp add: two_running_def empty_world_def example_instance_def counts_toward_cap_def
        example_cfg_def get_Tags_def)

lemma two_running_fault: "fault two_running c = None"
  by (simp add: two_running_def empty_world_def)




text \<open>
  The launch form of the page has no such check. Where the command line refuses, a click
  on "Launch Instance" looks the image up and launches: a third instance that counts
  toward the limit exists afterwards.
\<close>

lemma ui_launch_ignores_cap:
  "fst (ui_ec2_launch example_cfg ''web-server'' ''edik'' 0 (two_running, [])) = Success
   \<and> snd (snd (ui_ec2_launch example_cfg ''web-server'' ''edik'' 0 (two_running, []))) =
       [GetParameter SSM_AMI_PATH,
        RunInstances ''ami-1'' ''t3.micro'' ''edik''
          [(''Name'', ''web-server''), (''CreatedBy'', ''platform-cli''), (''Owner'', ''student'')]]
   \<and> length (filter (counts_toward_cap example_cfg)
         (concat (reservations (fst (snd (ui_ec2_launch example_cfg ''web-server'' ''edik'' 0 (two_running, []))))))) = 3"
  by (simp add: ui_ec2_launch_def selectbox_def get_latest_ami_def get_parameter_def
        run_instances_def api_pair two_running_def empty_world_def example_cfg_def
        example_instance_def counts_toward_cap_def get_Tags_def Let_def)

lemma length_filter_view:
  assumes "\<And>i. P i = Q (view i)"
  shows "length (filter P (concat rs)) = length (filter Q (concat (map (map view) rs)))"
proof -
  have "filter Q (map view xs) = map view (filter P xs)" for xs
    using assms by (induction xs) auto
  then have "length (filter Q (map view (concat rs))) = length (filter P (concat rs))"
    by simp
  then show ?thesis by (simp add: map_concat)
qed

lemma filter_view:
  assumes "\<And>i. P i = Q (view i)" "\<And>i. P' i = Q (view i)"
    and "map (map view) rs' = map (map view) rs"
  shows "length (filter P' (concat rs')) = length (filter P (concat rs))"
  using length_filter_view [of P Q view rs, OF assms(1)]
        length_filter_view [of P' Q view rs', OF assms(2)] assms(3)
  by simp

lemma counts_toward_cap_view:
  "counts_toward_cap cfg i =
     (case (inst_state i, filter (\<lambda>t. fst t \<noteq> ''Owner'') (get_Tags i)) of
        (st, ts) \<Rightarrow> (''CreatedBy'', tag_created_by cfg) \<in> set ts
                    \<and> st \<in> {''running'', ''pending'', ''stopping'', ''stopped''})"
  by (auto simp: counts_toward_cap_def)

text \<open>
  C9. With an allowed type and an answered counting request, \<^verbatim>\<open>create\<close> fails with the
  limit message exactly when at least two instances carry the \<^verbatim>\<open>CreatedBy\<close> tag of the
  tool and are pending, running, stopping or stopped. The \<^verbatim>\<open>Owner\<close> tag plays no part:
  two worlds whose instances agree in state and in every tag but \<^verbatim>\<open>Owner\<close>, and two
  configurations with the same \<^verbatim>\<open>CreatedBy\<close> value (whatever their owners), reach the
  limit together.
\<close>

theorem quota_ignores_owner:
  assumes "instance_type \<in> set ALLOWED_TYPES"
    and "fault w (count_request cfg) = None"
  shows "(fst (ec2_create cfg instance_type key_name name (w, tr)) = Failed QuotaExceeded
            \<longleftrightarrow> 2 \<le> length (filter (counts_toward_cap cfg) (concat (reservations w))))
     \<and> (tag_created_by cfg' = tag_created_by cfg
          \<and> map (map (\<lambda>i. (inst_state i, filter (\<lambda>t. fst t \<noteq> ''Owner'') (get_Tags i)))) (reservations w')
              = map (map (\<lambda>i. (inst_state i, filter (\<lambda>t. fst t \<noteq> ''Owner'') (get_Tags i)))) (reservations w)
          \<and> fault w' (count_request cfg') = None
          \<longrightarrow> (fst (ec2_create cfg' instance_type key_name' name' (w', tr')) = Failed QuotaExceeded
               \<longleftrightarrow> fst (ec2_create cfg instance_type key_name name (w, tr)) = Failed QuotaExceeded))"
proof -
  have 1: "fst (ec2_create c instance_type k n (v, t)) = Failed QuotaExceeded
            \<longleftrightarrow> 2 \<le> length (filter (counts_toward_cap c) (concat (reservations v)))"
    if "fault v (count_request c) = None" for c k n v t
    using assms(1) that by (auto simp: ec2_create_allowed split: prod.splits sum.splits)
  have 2: "length (filter (counts_toward_cap cfg') (concat (reservations w')))
              = length (filter (counts_toward_cap cfg) (concat (reservations w)))"
    if "tag_created_by cfg' = tag_created_by cfg"
      and "map (map (\<lambda>i. (inst_state i, filter (\<lambda>t. fst t \<noteq> ''Owner'') (get_Tags i)))) (reservations w')
              = map (map (\<lambda>i. (inst_state i, filter (\<lambda>t. fst t \<noteq> ''Owner'') (get_Tags i)))) (reservations w)"
    by (rule filter_view [where Q = "\<lambda>(st, ts). (''CreatedBy'', tag_created_by cfg) \<in> set ts
                    \<and> st \<in> {''running'', ''pending'', ''stopping'', ''stopped''}", OF _ _ that(2)])
       (simp_all add: counts_toward_cap_view that(1))
  show ?thesis using 1 [OF assms(2)] 1 [of w' cfg'] 2 by simp
qed

theorem quota_ignores_owner_witness:
  "fst (ec2_create example_cfg ''t3.micro'' ''key'' ''srv'' (two_running, [])) = Failed QuotaExceeded
   \<and> fst (ec2_create (example_cfg\<lparr>tag_owner := ''bob''\<rparr>) ''t3.micro'' ''k2'' ''web'' (two_running_bob, []))
       = Failed QuotaExceeded"
proof -
  have a: "''t3.micro'' \<in> set ALLOWED_TYPES" by (simp add: ALLOWED_TYPES_def)
  have b: "fault two_running (count_request example_cfg) = None" by (simp add: two_running_fault)
  have c: "tag_created_by (example_cfg\<lparr>tag_owner := ''bob''\<rparr>) = tag_created_by example_cfg"
    by simp
  have d: "map (map (\<lambda>i. (inst_state i, filter (\<lambda>t. fst t \<noteq> ''Owner'') (get_Tags i)))) (reservations two_running_bob)
         = map (map (\<lambda>i. (inst_state i, filter (\<lambda>t. fst t \<noteq> ''Owner'') (get_Tags i)))) (reservations two_running)"
    by (simp add: two_running_def two_running_bob_def empty_world_def example_instance_def get_Tags_def)
  have e: "fault two_running_bob (count_request (example_cfg\<lparr>tag_owner := ''bob''\<rparr>)) = None"
    by (simp add: two_running_bob_def empty_world_def)
  show ?thesis
    using quota_ignores_owner [OF a b, of "''key''" "''srv''" "[]" "example_cfg\<lparr>tag_owner := ''bob''\<rparr>"
        two_running_bob "''k2''" "''web''" "[]"] c d e two_running_count
    by simp
qed

section \<open>Confirmation prompts\<close>

text \<open>
  C6. A storage \<^verbatim>\<open>create\<close> with the public flag whose confirmation is declined returns
  with the state as it was: no request has been sent and no bucket exists that did not
  before. The same holds of the creation form of the page when the box
  "I understand the risks" is not ticked.
\<close>

theorem s3_create_declined:
  "s3_create cfg bucket_name True False s = (Cancelled, s)
   \<and> snd (ui_s3_create cfg b_name True False s) = s
   \<and> fst (ui_s3_create cfg b_name True False s) \<noteq> Success"
  by (simp add: s3_create_def ui_s3_create_def)

lemma describe_by_id:
  "describe_instances [] [iid] (w, tr) =
     (fst (describe_instances [] [iid] (w, [])), (w, tr @ [DescribeInstances [] [iid]]))"
  by (simp add: describe_instances_def api_pair split: option.splits)

lemma ec2_terminate_declined:
  "snd (ec2_terminate cfg iid False (w, tr)) = (w, tr @ [DescribeInstances [] [iid]])
   \<and> fst (ec2_terminate cfg iid False (w, tr)) \<noteq> Success"
  by (subst (1 2) ec2_terminate_def, subst (1 2) describe_by_id)
     (simp split: sum.splits)

text \<open>
  C5. The command line sends the terminate request only after the operator has confirmed
  (\<open>ec2_terminate_declined\<close>). The page has no such step: a run in which the Terminate
  button was clicked sends the request at once.
\<close>

theorem ui_terminate_unconfirmed:
  "snd (snd (ui_ec2 example_cfg 0 (Some Terminate) (one_running, []))) =
     [DescribeInstances [(''tag:CreatedBy'', [''platform-cli''])] [], TerminateInstances [''i-1'']]
   \<and> map (map inst_state) (reservations (fst (snd (ui_ec2 example_cfg 0 (Some Terminate) (one_running, [])))))
       = [[''shutting-down'']]"
  by (simp add: ui_ec2_def describe_instances_def api_pair one_running_def empty_world_def
        example_cfg_def example_instance_def filter_matches_def get_Tags_def ui_ec2_row_of_def
        selectbox_def terminate_instances_def set_state_def Let_def)

section \<open>Records of a zone\<close>

lemma find_map_update:
  assumes "find P xs = Some z" "\<And>x. P (f x) = P x"
  shows "find P (map (\<lambda>x. if P x then f x else x) xs) = Some (f z)"
  using assms by (induction xs) (auto split: if_splits)

lemma find_zone_set_records:
  "find_zone w zid = Some z \<Longrightarrow> find_zone (set_records zid rs w) zid = Some (z\<lparr>zone_records := rs\<rparr>)"
  unfolding find_zone_def set_records_def
  using find_map_update [of "\<lambda>z. after_last_slash (zone_Id z) = after_last_slash zid" "zones w" z
      "\<lambda>z'. z'\<lparr>zone_records := rs\<rparr>"]
  by simp

lemma fault_set_records [simp]: "fault (set_records zid rs w) = fault w"
  by (simp add: set_records_def)

lemma set_records_twice [simp]: "set_records zid rs (set_records zid rs' w) = set_records zid rs w"
  by (simp add: set_records_def comp_def)

lemma change_rrsets:
  "change_resource_record_sets zid a r (w, tr) =
     (case fault w (ChangeResourceRecordSets zid a r) of
        Some e \<Rightarrow> (Inl e, (w, tr @ [ChangeResourceRecordSets zid a r]))
      | None \<Rightarrow>
         (case find_zone w zid of
            None \<Rightarrow> (Inl ClientError, (w, tr @ [ChangeResourceRecordSets zid a r]))
          | Some z \<Rightarrow>
              (case apply_change a r (zone_records z) of
                 Inl e \<Rightarrow> (Inl e, (w, tr @ [ChangeResourceRecordSets zid a r]))
               | Inr rs \<Rightarrow> (Inr (), (set_records zid rs w, tr @ [ChangeResourceRecordSets zid a r])))))"
  by (simp add: change_resource_record_sets_def api_pair set_records_def
        split: option.splits sum.splits)

lemma list_tags_zone:
  "list_tags_for_resource ''hostedzone'' zid (w, tr) =
     (case fault w (ListTagsForResource ''hostedzone'' zid) of
        Some e \<Rightarrow> (Inl e, (w, tr @ [ListTagsForResource ''hostedzone'' zid]))
      | None \<Rightarrow>
          (case find_zone w zid of
             None \<Rightarrow> (Inl ClientError, (w, tr @ [ListTagsForResource ''hostedzone'' zid]))
           | Some z \<Rightarrow> (Inr (zone_tags z), (w, tr @ [ListTagsForResource ''hostedzone'' zid]))))"
  by (simp add: list_tags_for_resource_def api_pair split: option.splits)

lemma get_zone:
  "get_hosted_zone zid (w, tr) =
     (case fault w (GetHostedZone zid) of
        Some e \<Rightarrow> (Inl e, (w, tr @ [GetHostedZone zid]))
      | None \<Rightarrow>
          (case find_zone w zid of
             None \<Rightarrow> (Inl ClientError, (w, tr @ [GetHostedZone zid]))
           | Some z \<Rightarrow> (Inr (zone_Name z), (w, tr @ [GetHostedZone zid]))))"
  by (simp add: get_hosted_zone_def api_pair split: option.splits)

lemma add_record_managed:
  assumes "find_zone w zid = Some z"
    and "is_managed (tag_created_by cfg) (tags_dict (zone_tags z))"
    and "fault w (ListTagsForResource ''hostedzone'' zid) = None"
    and "fault w (GetHostedZone zid) = None"
    and "fault w (ChangeResourceRecordSets zid UPSERT (a_record (sub @ ''.'' @ zone_Name z) ip)) = None"
  shows "add_record cfg zid sub ip (w, tr) =
     (Success,
      (set_records zid (filter (\<lambda>r'. \<not> same_key (a_record (sub @ ''.'' @ zone_Name z) ip) r') (zone_records z)
                         @ [a_record (sub @ ''.'' @ zone_Name z) ip]) w,
       tr @ [ListTagsForResource ''hostedzone'' zid, GetHostedZone zid,
             ChangeResourceRecordSets zid UPSERT (a_record (sub @ ''.'' @ zone_Name z) ip)]))"
  using assms
  by (simp add: add_record_def list_tags_zone get_zone change_rrsets apply_change_def)


lemma upsert_filter:
  "filter (\<lambda>r. rr_name r = n \<and> rr_type r = ''A'')
     (filter (\<lambda>r'. \<not> same_key (a_record n ip) r') rs @ [a_record n ip]) = [a_record n ip]"
  by (induction rs) (auto simp: same_key_def a_record_def)

lemma upsert_twice:
  "filter (\<lambda>r'. \<not> same_key (a_record n ip') r')
      (filter (\<lambda>r'. \<not> same_key (a_record n ip) r') rs @ [a_record n ip])
   = filter (\<lambda>r'. \<not> same_key (a_record n ip) r') rs"
  by (induction rs) (auto simp: same_key_def a_record_def)

text \<open>
  C3. On a managed zone whose requests are answered, \<^verbatim>\<open>add_record\<close> succeeds and sends, after
  the tag and zone requests, one \<^verbatim>\<open>UPSERT\<close> of the record set named
  \<^verbatim>\<open>subdomain + "." + zone name\<close> with type A, time-to-live 300 and the address as its one
  value. A second \<^verbatim>\<open>add_record\<close> for the same subdomain with any address succeeds and
  leaves exactly one record set of that name and type A, holding the second address; with
  the same address again it leaves the provider as the first run left it.
\<close>

theorem add_record_upsert:
  assumes "find_zone w zid = Some z"
    and "is_managed (tag_created_by cfg) (tags_dict (zone_tags z))"
    and "fault w (ListTagsForResource ''hostedzone'' zid) = None"
    and "fault w (GetHostedZone zid) = None"
    and "\<And>r. fault w (ChangeResourceRecordSets zid UPSERT r) = None"
  shows "fst (add_record cfg zid sub ip (w, tr)) = Success
     \<and> snd (snd (add_record cfg zid sub ip (w, tr))) =
         tr @ [ListTagsForResource ''hostedzone'' zid, GetHostedZone zid,
               ChangeResourceRecordSets zid UPSERT
                 \<lparr>rr_name = sub @ ''.'' @ zone_Name z, rr_type = ''A'', rr_ttl = Some 300,
                  rr_values = [ip]\<rparr>]
     \<and> fst (add_record cfg zid sub ip' (snd (add_record cfg zid sub ip (w, tr)))) = Success
     \<and> filter (\<lambda>r. rr_name r = sub @ ''.'' @ zone_Name z \<and> rr_type r = ''A'')
          (records_of (fst (snd (add_record cfg zid sub ip' (snd (add_record cfg zid sub ip (w, tr)))))) zid)
         = [\<lparr>rr_name = sub @ ''.'' @ zone_Name z, rr_type = ''A'', rr_ttl = Some 300,
             rr_values = [ip']\<rparr>]
     \<and> fst (snd (add_record cfg zid sub ip (snd (add_record cfg zid sub ip (w, tr)))))
         = fst (snd (add_record cfg zid sub ip (w, tr)))"
proof -
  let ?n = "sub @ ''.'' @ zone_Name z"
  let ?rs1 = "filter (\<lambda>r'. \<not> same_key (a_record ?n ip) r') (zone_records z) @ [a_record ?n ip]"
  let ?w1 = "set_records zid ?rs1 w"
  let ?tr1 = "tr @ [ListTagsForResource ''hostedzone'' zid, GetHostedZone zid,
                    ChangeResourceRecordSets zid UPSERT (a_record ?n ip)]"
  have first: "add_record cfg zid sub ip (w, tr) = (Success, (?w1, ?tr1))"
    using assms by (simp add: add_record_managed)
  have z1: "find_zone ?w1 zid = Some (z\<lparr>zone_records := ?rs1\<rparr>)"
    using assms(1) by (rule find_zone_set_records)
  have second: "add_record cfg zid sub x (?w1, ?tr1) =
     (Success,
      (set_records zid (filter (\<lambda>r'. \<not> same_key (a_record ?n x) r') ?rs1 @ [a_record ?n x]) w,
       ?tr1 @ [ListTagsForResource ''hostedzone'' zid, GetHostedZone zid,
               ChangeResourceRecordSets zid UPSERT (a_record ?n x)]))" for x
    using add_record_managed [OF z1, of cfg sub x ?tr1] assms by simp
  have recs: "records_of (set_records zid rs w) zid = rs" for rs
    using find_zone_set_records [OF assms(1), of rs] by (simp add: records_of_def)
  have both: "add_record cfg zid sub x (snd (add_record cfg zid sub ip (w, tr))) =
     (Success,
      (set_records zid (filter (\<lambda>r'. \<not> same_key (a_record ?n x) r') ?rs1 @ [a_record ?n x]) w,
       ?tr1 @ [ListTagsForResource ''hostedzone'' zid, GetHostedZone zid,
               ChangeResourceRecordSets zid UPSERT (a_record ?n x)]))" for x
    by (simp only: first snd_conv second)
  have c1: "fst (add_record cfg zid sub ip (w, tr)) = Success"
    by (simp only: first fst_conv)
  have c2: "snd (snd (add_record cfg zid sub ip (w, tr))) = ?tr1"
    by (simp only: first snd_conv)
  have c3: "fst (add_record cfg zid sub ip' (snd (add_record cfg zid sub ip (w, tr)))) = Success"
    by (simp only: both fst_conv)
  have c4: "filter (\<lambda>r. rr_name r = ?n \<and> rr_type r = ''A'')
          (records_of (fst (snd (add_record cfg zid sub ip' (snd (add_record cfg zid sub ip (w, tr)))))) zid)
         = [a_record ?n ip']"
    by (simp only: both fst_conv snd_conv recs upsert_filter)
  have c5: "fst (snd (add_record cfg zid sub ip (snd (add_record cfg zid sub ip (w, tr)))))
         = fst (snd (add_record cfg zid sub ip (w, tr)))"
    by (subst both) (simp only: first fst_conv snd_conv upsert_twice)
  show ?thesis
    using c1 c2 c3 c4 c5 unfolding a_record_def by blast
qed

theorem add_record_upsert_witness:
  "filter (\<lambda>r. rr_name r = ''www.example.com.'' \<and> rr_type r = ''A'')
     (records_of (fst (snd (add_record example_cfg ''Z1'' ''www'' ''5.6.7.8''
                              (snd (add_record example_cfg ''Z1'' ''www'' ''1.2.3.4'' (dns_world, [])))))) ''Z1'')
   = [\<lparr>rr_name = ''www.example.com.'', rr_type = ''A'', rr_ttl = Some 300, rr_values = [''5.6.7.8'']\<rparr>]"
proof -
  have a: "find_zone dns_world ''Z1'' = Some (hd (zones dns_world))"
    by (simp add: find_zone_def dns_world_def empty_world_def after_last_slash_def)
  have b: "is_managed (tag_created_by example_cfg) (tags_dict (zone_tags (hd (zones dns_world))))"
    by (simp add: dns_world_def empty_world_def example_cfg_def is_managed_def tags_dict_def)
  have c: "fault dns_world x = None" for x
    by (simp add: dns_world_def empty_world_def)
  have d: "zone_Name (hd (zones dns_world)) = ''example.com.''"
    by (simp add: dns_world_def empty_world_def)
  show ?thesis
    using add_record_upsert [OF a b c c c, of "''www''" "''1.2.3.4''" "[]" "''5.6.7.8''"]
    by (simp add: d)
qed


lemma delete_record_calls:
  "\<exists>new. snd (snd (delete_record cfg zid sub ip (w, tr))) = tr @ new
     \<and> (\<forall>c \<in> set new. \<forall>z' a r. c = ChangeResourceRecordSets z' a r \<longrightarrow>
           z' = zid \<and> a = DELETE \<and> rr_type r = ''A'' \<and> rr_ttl r = Some 300 \<and> rr_values r = [ip])"
  by (auto simp: delete_record_def list_tags_zone get_zone change_rrsets a_record_def
        split: option.splits sum.splits)

text \<open>
  C10. Every change \<^verbatim>\<open>delete_record\<close> sends is a \<^verbatim>\<open>DELETE\<close> of a record set of type A with
  time-to-live 300 and the given address as its one value. So when the live record set of
  that name has the given address but another time-to-live, the record set sent is not
  the live one: the provider rejects the change, the command reports the provider's error
  and the record stays.
\<close>

theorem delete_record_fixed_ttl:
  assumes "find_zone w zid = Some z"
    and "is_managed (tag_created_by cfg) (tags_dict (zone_tags z))"
    and "fault w (ListTagsForResource ''hostedzone'' zid) = None"
    and "fault w (GetHostedZone zid) = None"
    and "\<And>r. fault w (ChangeResourceRecordSets zid DELETE r) = None"
    and "live \<in> set (zone_records z)"
    and "rr_name live = sub @ ''.'' @ zone_Name z" and "rr_type live = ''A''"
    and "rr_values live = [ip]" and "rr_ttl live \<noteq> Some 300"
    and "\<forall>r \<in> set (zone_records z). same_key r live \<longrightarrow> r = live"
  shows "(\<exists>new. snd (snd (delete_record cfg zone_id subdomain ip_address (w', tr'))) = tr' @ new
             \<and> (\<forall>c \<in> set new. \<forall>z' a r. c = ChangeResourceRecordSets z' a r \<longrightarrow>
                   z' = zone_id \<and> a = DELETE \<and> rr_type r = ''A'' \<and> rr_ttl r = Some 300
                   \<and> rr_values r = [ip_address]))
     \<and> delete_record cfg zid sub ip (w, tr) =
         (Failed (ProviderError ClientError),
          (w, tr @ [ListTagsForResource ''hostedzone'' zid, GetHostedZone zid,
                    ChangeResourceRecordSets zid DELETE
                      \<lparr>rr_name = sub @ ''.'' @ zone_Name z, rr_type = ''A'', rr_ttl = Some 300,
                       rr_values = [ip]\<rparr>]))"
proof -
  let ?sent = "a_record (sub @ ''.'' @ zone_Name z) ip"
  have "?sent \<notin> set (zone_records z)"
  proof
    assume "?sent \<in> set (zone_records z)"
    moreover have "same_key ?sent live"
      using assms(7,8) by (simp add: same_key_def a_record_def)
    ultimately have "?sent = live" using assms(11) by blast
    then have "rr_ttl live = Some 300" by (simp add: a_record_def flip: \<open>?sent = live\<close>)
    with assms(10) show False by simp
  qed
  then have "apply_change DELETE ?sent (zone_records z) = Inl ClientError"
    by (simp add: apply_change_def)
  then have "delete_record cfg zid sub ip (w, tr) =
     (Failed (ProviderError ClientError),
      (w, tr @ [ListTagsForResource ''hostedzone'' zid, GetHostedZone zid,
                ChangeResourceRecordSets zid DELETE ?sent]))"
    using assms(1-5) by (simp add: delete_record_def list_tags_zone get_zone change_rrsets)
  then show ?thesis using delete_record_calls by (simp only: a_record_def)
qed

theorem delete_record_fixed_ttl_witness:
  "delete_record example_cfg ''Z1'' ''www'' ''1.2.3.4'' (dns_world, []) =
     (Failed (ProviderError ClientError),
      (dns_world, [ListTagsForResource ''hostedzone'' ''Z1'', GetHostedZone ''Z1'',
                   ChangeResourceRecordSets ''Z1'' DELETE
                     \<lparr>rr_name = ''www.example.com.'', rr_type = ''A'', rr_ttl = Some 300,
                      rr_values = [''1.2.3.4'']\<rparr>]))"
proof -
  let ?z = "hd (zones dns_world)"
  let ?live = "\<lparr>rr_name = ''www.example.com.'', rr_type = ''A'', rr_ttl = Some 60,
                 rr_values = [''1.2.3.4'']\<rparr>"
  have a: "find_zone dns_world ''Z1'' = Some ?z"
    by (simp add: find_zone_def dns_world_def empty_world_def after_last_slash_def)
  have b: "is_managed (tag_created_by example_cfg) (tags_dict (zone_tags ?z))"
    by (simp add: dns_world_def empty_world_def example_cfg_def is_managed_def tags_dict_def)
  have c: "fault dns_world x = None" for x
    by (simp add: dns_world_def empty_world_def)
  have d: "?live \<in> set (zone_records ?z)"
    by (simp add: dns_world_def empty_world_def)
  have e: "rr_name ?live = ''www'' @ ''.'' @ zone_Name ?z"
    by (simp add: dns_world_def empty_world_def)
  have f: "rr_type ?live = ''A''" "rr_values ?live = [''1.2.3.4'']" "rr_ttl ?live \<noteq> Some 300"
    by simp_all
  have g: "\<forall>r \<in> set (zone_records ?z). same_key r ?live \<longrightarrow> r = ?live"
    by (simp add: dns_world_def empty_world_def same_key_def)
  show ?thesis
    using delete_record_fixed_ttl [OF a b c c c d e f g, of "[]"]
    by (simp add: dns_world_def empty_world_def)
qed

text \<open>
  The page deletes with the time-to-live it read from the listing, so there the same
  record is removed.
\<close>

lemma ui_delete_uses_live_ttl:
  "fst (fst (ui_dns example_cfg 0 (Some (DeleteRecord ''www.example.com.'')) (dns_world, []))) = Success
   \<and> last (snd (snd (ui_dns example_cfg 0 (Some (DeleteRecord ''www.example.com.'')) (dns_world, []))))
      = ChangeResourceRecordSets ''Z1'' DELETE
          \<lparr>rr_name = ''www.example.com.'', rr_type = ''A'', rr_ttl = Some 60, rr_values = [''1.2.3.4'']\<rparr>"
  by (simp add: ui_dns_def list_hosted_zones_def api_pair dns_world_def empty_world_def
        list_tags_zone find_zone_def after_last_slash_def example_cfg_def is_managed_def
        tags_dict_def selectbox_def ui_records_def list_resource_record_sets_def
        change_rrsets apply_change_def set_records_def Let_def)

section \<open>Listings\<close>

lemma list_tags_fetch:
  "list_tags_for_resource ''hostedzone'' zid (w, tr) =
     (zone_tag_fetch w zid, (w, tr @ [ListTagsForResource ''hostedzone'' zid]))"
  by (simp add: zone_tag_fetch_def list_tags_for_resource_def api_pair split: option.splits)

lemma bucket_tags_fetch:
  "get_bucket_tagging name (w, tr) = (bucket_tag_fetch w name, (w, tr @ [GetBucketTagging name]))"
  by (simp add: bucket_tag_fetch_def get_bucket_tagging_def api_pair split: option.splits)

lemma route53_list_loop_eq:
  "route53_list_loop cfg zs (w, tr) =
     (map (\<lambda>z. (after_last_slash (fst z), fst (snd z), snd (snd z))) (filter (zone_listed cfg w) zs),
      (w, tr @ zone_tag_requests zs))"
  by (induction zs arbitrary: tr)
     (auto simp: list_tags_fetch zone_listed_def zone_tag_requests_def Let_def split: sum.splits)

lemma ui_s3_list_loop_eq:
  "ui_s3_list_loop cfg bs (w, tr) =
     (map fst (filter (bucket_listed cfg w) bs), (w, tr @ bucket_tag_requests bs))"
  by (induction bs arbitrary: tr)
     (auto simp: bucket_tags_fetch bucket_listed_def bucket_tag_requests_def split: sum.splits)

lemma ui_zone_loop_eq:
  "ui_zone_loop cfg zs my_zones table_data (w, tr) =
     ((fold (\<lambda>z. dict_set (fst (snd z)) (after_last_slash (fst z))) (filter (zone_listed cfg w) zs) my_zones,
       table_data @ map (\<lambda>z. (fst (snd z), after_last_slash (fst z), snd (snd z)))
                      (filter (zone_listed cfg w) zs)),
      (w, tr @ zone_tag_requests zs))"
  by (induction zs arbitrary: tr my_zones table_data)
     (auto simp: list_tags_fetch zone_listed_def zone_tag_requests_def Let_def split: sum.splits)

lemma s3_list_loop_lenient:
  assumes "\<forall>b \<in> set bs. \<forall>e. bucket_tag_fetch w (fst b) = Inl e \<longrightarrow> e = ClientError"
  shows "s3_list_loop cfg bs (w, tr) =
     ((None, filter (bucket_listed cfg w) bs), (w, tr @ bucket_tag_requests bs))"
  using assms
  by (induction bs arbitrary: tr)
     (auto simp: bucket_tags_fetch bucket_listed_def bucket_tag_requests_def split: sum.splits)

lemma s3_list_loop_abort:
  assumes "\<forall>b \<in> set pre. \<forall>e. bucket_tag_fetch w (fst b) = Inl e \<longrightarrow> e = ClientError"
    and "bucket_tag_fetch w (fst b) = Inl e" and "e \<noteq> ClientError"
  shows "s3_list_loop cfg (pre @ b # post) (w, tr) =
     ((Some e, filter (bucket_listed cfg w) pre), (w, tr @ bucket_tag_requests (pre @ [b])))"
  using assms
  by (induction pre arbitrary: tr)
     (auto simp: bucket_tags_fetch bucket_listed_def bucket_tag_requests_def split: sum.splits)

lemma tags_dict_member:
  "distinct (map fst ts) \<Longrightarrow> (k, v) \<in> set ts \<Longrightarrow> tags_dict ts k = Some v"
  unfolding tags_dict_map_of
  by (rule map_of_is_SomeI) (simp_all add: rev_map [symmetric] del: rev_map)

lemma concat_filter_nonempty: "concat (filter (\<lambda>r. r \<noteq> []) rs) = concat rs"
  by (induction rs) auto

lemma describe_listing:
  "describe_instances [(''tag:CreatedBy'', [tag_created_by cfg])] [] (w, tr) =
     (case fault w (listing_request cfg) of
        Some e \<Rightarrow> (Inl e, (w, tr @ [listing_request cfg]))
      | None \<Rightarrow>
          (Inr (filter (\<lambda>r. r \<noteq> [])
                  (map (filter (\<lambda>i. (''CreatedBy'', tag_created_by cfg) \<in> set (get_Tags i)))
                       (reservations w))),
           (w, tr @ [listing_request cfg])))"
  by (simp add: describe_instances_def api_pair listing_request_def filter_matches_def
        split: option.splits)

lemma listed_instances:
  "concat (filter (\<lambda>r. r \<noteq> []) (map (filter P) rs)) = filter P (concat rs)"
  by (simp add: concat_filter_nonempty filter_concat)

lemma ec2_list_rows:
  "set (snd (fst (ec2_list cfg (w, tr)))) \<subseteq>
     ec2_row_of ` {i \<in> set (concat (reservations w)).
                    (''CreatedBy'', tag_created_by cfg) \<in> set (get_Tags i)
                    \<and> inst_state i \<noteq> ''terminated''}"
  by (auto simp: ec2_list_def describe_listing listed_instances split: option.splits)

lemma ui_ec2_rows:
  "set (snd (fst (ui_ec2 cfg choice button (w, tr)))) \<subseteq>
     ui_ec2_row_of ` {i \<in> set (concat (reservations w)).
                    (''CreatedBy'', tag_created_by cfg) \<in> set (get_Tags i)
                    \<and> inst_state i \<noteq> ''terminated''}"
  by (auto simp: ui_ec2_def describe_listing listed_instances Let_def
        split: option.splits prod.splits sum.splits ec2_button.splits)

lemma list_buckets_eq:
  "list_buckets (w, tr) =
     (case fault w ListBuckets of
        Some e \<Rightarrow> (Inl e, (w, tr @ [ListBuckets]))
      | None \<Rightarrow> (Inr (listed_buckets w), (w, tr @ [ListBuckets])))"
  by (simp add: list_buckets_def api_pair listed_buckets_def split: option.splits)

lemma list_hosted_zones_eq:
  "list_hosted_zones (w, tr) =
     (case fault w ListHostedZones of
        Some e \<Rightarrow> (Inl e, (w, tr @ [ListHostedZones]))
      | None \<Rightarrow> (Inr (listed_zones w), (w, tr @ [ListHostedZones])))"
  by (simp add: list_hosted_zones_def api_pair listed_zones_def split: option.splits)

lemma s3_list_loop_rows:
  "set (snd (fst (s3_list_loop cfg bs (w, tr)))) \<subseteq> set (filter (bucket_listed cfg w) bs)"
proof (induction bs arbitrary: tr)
  case Nil
  then show ?case by simp
next
  case (Cons b bs)
  show ?case
    using Cons.IH [of "tr @ [GetBucketTagging (fst b)]"]
    by (cases "bucket_tag_fetch w (fst b)")
       (auto simp: bucket_tags_fetch bucket_listed_def split: prod.splits)
qed

lemma s3_list_rows:
  "set (snd (fst (s3_list cfg (w, tr)))) \<subseteq> set (filter (bucket_listed cfg w) (listed_buckets w))"
proof (cases "fault w ListBuckets")
  case None
  obtain r rows s2 where l: "s3_list_loop cfg (listed_buckets w) (w, tr @ [ListBuckets]) = ((r, rows), s2)"
    by (metis prod.exhaust)
  then have "set rows \<subseteq> set (filter (bucket_listed cfg w) (listed_buckets w))"
    using s3_list_loop_rows [of cfg "listed_buckets w" w "tr @ [ListBuckets]"] by simp
  then show ?thesis
    using None l by (cases r) (simp_all add: s3_list_def list_buckets_eq)
next
  case (Some e)
  then show ?thesis by (simp add: s3_list_def list_buckets_eq)
qed

lemma bucket_listed_world:
  "bucket_listed cfg w b \<Longrightarrow>
     \<exists>x ts. find_bucket w (fst b) = Some x \<and> bucket_tagset x = Some ts
            \<and> is_managed (tag_created_by cfg) (tags_dict ts)"
  by (auto simp: bucket_listed_def bucket_tag_fetch_def get_bucket_tagging_def api_pair
        split: sum.splits option.splits)

lemma zone_fetch_world:
  "zone_tag_fetch w zid = Inr ts \<Longrightarrow> \<exists>z. find_zone w zid = Some z \<and> zone_tags z = ts"
  by (auto simp: zone_tag_fetch_def list_tags_for_resource_def api_pair
        split: option.splits)

lemma zone_listed_world:
  "zone_listed cfg w z \<Longrightarrow>
     \<exists>x. find_zone w (after_last_slash (fst z)) = Some x
         \<and> is_managed (tag_created_by cfg) (tags_dict (zone_tags x))"
  by (auto simp: zone_listed_def split: sum.splits dest: zone_fetch_world)

lemma route53_list_eq:
  "route53_list cfg (w, tr) =
     (case fault w ListHostedZones of
        Some e \<Rightarrow> ((Failed (ProviderError e), []), (w, tr @ [ListHostedZones]))
      | None \<Rightarrow>
          ((Success, map (\<lambda>z. (after_last_slash (fst z), fst (snd z), snd (snd z)))
                       (filter (zone_listed cfg w) (listed_zones w))),
           (w, tr @ ListHostedZones # zone_tag_requests (listed_zones w))))"
  by (simp add: route53_list_def list_hosted_zones_eq route53_list_loop_eq split: option.splits)

lemma ui_s3_list_eq:
  "ui_s3_list cfg (w, tr) =
     (case fault w ListBuckets of
        Some e \<Rightarrow> ((Failed (ProviderError e), []), (w, tr @ [ListBuckets]))
      | None \<Rightarrow>
          ((Success, map fst (filter (bucket_listed cfg w) (listed_buckets w))),
           (w, tr @ ListBuckets # bucket_tag_requests (listed_buckets w))))"
  by (simp add: ui_s3_list_def list_buckets_eq ui_s3_list_loop_eq split: option.splits)

lemma ui_dns_table:
  "snd (fst (ui_dns cfg choice button (w, tr))) =
     (case fault w ListHostedZones of
        Some e \<Rightarrow> []
      | None \<Rightarrow> map (\<lambda>z. (fst (snd z), after_last_slash (fst z), snd (snd z)))
                  (filter (zone_listed cfg w) (listed_zones w)))"
  by (simp add: ui_dns_def list_hosted_zones_eq ui_zone_loop_eq Let_def
        split: option.splits prod.splits dns_button.splits sum.splits)

text \<open>
  C7. Every row a listing returns belongs to a resource of the provider that passes the
  ownership test: the instances of the command line and of the page (none of them
  terminated), the buckets and the zones of both. For the instances the provider selects
  by the \<^verbatim>\<open>tag:CreatedBy\<close> filter; that an instance has one value per tag key is the
  provider's invariant, assumed here.
\<close>

theorem listings_only_managed:
  assumes "\<forall>i \<in> set (concat (reservations w)). distinct (map fst (get_Tags i))"
  shows "(\<forall>row \<in> set (snd (fst (ec2_list cfg (w, tr)))).
            \<exists>i \<in> set (concat (reservations w)).
              row = ec2_row_of i \<and> is_managed (tag_created_by cfg) (tags_dict (get_Tags i))
              \<and> inst_state i \<noteq> ''terminated'')
     \<and> (\<forall>row \<in> set (snd (fst (ui_ec2 cfg choice button (w, tr)))).
            \<exists>i \<in> set (concat (reservations w)).
              row = ui_ec2_row_of i \<and> is_managed (tag_created_by cfg) (tags_dict (get_Tags i))
              \<and> inst_state i \<noteq> ''terminated'')
     \<and> (\<forall>row \<in> set (snd (fst (s3_list cfg (w, tr)))).
            \<exists>b ts. find_bucket w (fst row) = Some b \<and> bucket_tagset b = Some ts
                   \<and> is_managed (tag_created_by cfg) (tags_dict ts))
     \<and> (\<forall>name \<in> set (snd (fst (ui_s3_list cfg (w, tr)))).
            \<exists>b ts. find_bucket w name = Some b \<and> bucket_tagset b = Some ts
                   \<and> is_managed (tag_created_by cfg) (tags_dict ts))
     \<and> (\<forall>row \<in> set (snd (fst (route53_list cfg (w, tr)))).
            \<exists>z. find_zone w (fst row) = Some z
                \<and> is_managed (tag_created_by cfg) (tags_dict (zone_tags z)))
     \<and> (\<forall>row \<in> set (snd (fst (ui_dns cfg choice' button' (w, tr)))).
            \<exists>z. find_zone w (fst (snd row)) = Some z
                \<and> is_managed (tag_created_by cfg) (tags_dict (zone_tags z)))"
proof -
  have m: "is_managed (tag_created_by cfg) (tags_dict (get_Tags i))"
    if "i \<in> set (concat (reservations w))" "(''CreatedBy'', tag_created_by cfg) \<in> set (get_Tags i)" for i
    using assms that by (auto simp: is_managed_def intro: tags_dict_member)
  have 1: "\<exists>i \<in> set (concat (reservations w)).
              row = ec2_row_of i \<and> is_managed (tag_created_by cfg) (tags_dict (get_Tags i))
              \<and> inst_state i \<noteq> ''terminated''"
    if "row \<in> set (snd (fst (ec2_list cfg (w, tr))))" for row
    using that ec2_list_rows [of cfg w tr] m by blast
  have 2: "\<exists>i \<in> set (concat (reservations w)).
              row = ui_ec2_row_of i \<and> is_managed (tag_created_by cfg) (tags_dict (get_Tags i))
              \<and> inst_state i \<noteq> ''terminated''"
    if "row \<in> set (snd (fst (ui_ec2 cfg choice button (w, tr))))" for row
    using that ui_ec2_rows [of cfg choice button w tr] m by blast
  have 3: "\<exists>b ts. find_bucket w (fst row) = Some b \<and> bucket_tagset b = Some ts
                   \<and> is_managed (tag_created_by cfg) (tags_dict ts)"
    if "row \<in> set (snd (fst (s3_list cfg (w, tr))))" for row
    using that s3_list_rows [of cfg w tr] bucket_listed_world [of cfg w row] by auto
  have 4: "\<exists>b ts. find_bucket w name = Some b \<and> bucket_tagset b = Some ts
                   \<and> is_managed (tag_created_by cfg) (tags_dict ts)"
    if "name \<in> set (snd (fst (ui_s3_list cfg (w, tr))))" for name
    using that bucket_listed_world [of cfg w]
    by (auto simp: ui_s3_list_eq split: option.splits)
  have 5: "\<exists>z. find_zone w (fst row) = Some z
                \<and> is_managed (tag_created_by cfg) (tags_dict (zone_tags z))"
    if "row \<in> set (snd (fst (route53_list cfg (w, tr))))" for row
    using that zone_listed_world [of cfg w]
    by (auto simp: route53_list_eq split: option.splits)
  have 6: "\<exists>z. find_zone w (fst (snd row)) = Some z
                \<and> is_managed (tag_created_by cfg) (tags_dict (zone_tags z))"
    if "row \<in> set (snd (fst (ui_dns cfg choice' button' (w, tr))))" for row
    using that zone_listed_world [of cfg w]
    by (auto simp: ui_dns_table split: option.splits)
  show ?thesis using 1 2 3 4 5 6 by blast
qed

theorem listings_only_managed_witness:
  "snd (fst (ec2_list example_cfg (mixed_world, []))) = [(''i-1'', ''srv'', ''running'', ''t3.micro'', ''N/A'')]
   \<and> (\<exists>i \<in> set (concat (reservations mixed_world)).
         (''i-1'', ''srv'', ''running'', ''t3.micro'', ''N/A'') = ec2_row_of i
         \<and> is_managed (tag_created_by example_cfg) (tags_dict (get_Tags i))
         \<and> inst_state i \<noteq> ''terminated'')
   \<and> snd (fst (s3_list example_cfg (mixed_world, []))) = [(''b1'', ''2024-01-01''), (''b3'', ''2024-01-03'')]
   \<and> snd (fst (route53_list example_cfg (mixed_world, []))) = [(''Z1'', ''example.com.'', 2)]"
proof -
  have wf: "\<forall>i \<in> set (concat (reservations mixed_world)). distinct (map fst (get_Tags i))"
    by (simp add: mixed_world_def example_instance_def get_Tags_def)
  have e: "snd (fst (ec2_list example_cfg (mixed_world, []))) = [(''i-1'', ''srv'', ''running'', ''t3.micro'', ''N/A'')]"
    by (simp add: ec2_list_def describe_instances_def api_pair filter_matches_def mixed_world_def
          example_cfg_def example_instance_def get_Tags_def ec2_row_of_def tags_dict_def)
  have b: "snd (fst (s3_list example_cfg (mixed_world, []))) = [(''b1'', ''2024-01-01''), (''b3'', ''2024-01-03'')]"
    by (simp add: s3_list_def list_buckets_eq listed_buckets_def mixed_world_def bucket_world_def
          empty_world_def dns_world_def bucket_tags_fetch bucket_tag_fetch_def get_bucket_tagging_def
          api_pair find_bucket_def example_cfg_def is_managed_def tags_dict_def)
  have z: "snd (fst (route53_list example_cfg (mixed_world, []))) = [(''Z1'', ''example.com.'', 2)]"
    by (simp add: route53_list_eq listed_zones_def zone_listed_def zone_tag_fetch_def
          list_tags_for_resource_def api_pair find_zone_def after_last_slash_def
          mixed_world_def dns_world_def empty_world_def example_cfg_def is_managed_def tags_dict_def)
  have r: "(''i-1'', ''srv'', ''running'', ''t3.micro'', ''N/A'') \<in> set (snd (fst (ec2_list example_cfg (mixed_world, []))))"
    by (simp only: e list.set_intros)
  have m: "\<exists>i \<in> set (concat (reservations mixed_world)).
         (''i-1'', ''srv'', ''running'', ''t3.micro'', ''N/A'') = ec2_row_of i
         \<and> is_managed (tag_created_by example_cfg) (tags_dict (get_Tags i))
         \<and> inst_state i \<noteq> ''terminated''"
    using listings_only_managed [OF wf, of example_cfg "[]" 0 None 0 None] r by blast
  show ?thesis using e m b z by blast
qed

lemma s3_list_lenient:
  assumes "fault w ListBuckets = None"
    and "\<forall>b \<in> set (listed_buckets w). \<forall>e. bucket_tag_fetch w (fst b) = Inl e \<longrightarrow> e = ClientError"
  shows "s3_list cfg (w, tr) =
     ((Success, filter (bucket_listed cfg w) (listed_buckets w)),
      (w, tr @ ListBuckets # bucket_tag_requests (listed_buckets w)))"
  using assms by (simp add: s3_list_def list_buckets_eq s3_list_loop_lenient)

lemma s3_list_abort:
  assumes "fault w ListBuckets = None"
    and "listed_buckets w = pre @ b # post"
    and "\<forall>b \<in> set pre. \<forall>e. bucket_tag_fetch w (fst b) = Inl e \<longrightarrow> e = ClientError"
    and "bucket_tag_fetch w (fst b) = Inl e" and "e \<noteq> ClientError"
  shows "s3_list cfg (w, tr) =
     ((Failed (ProviderError e), filter (bucket_listed cfg w) pre),
      (w, tr @ ListBuckets # bucket_tag_requests (pre @ [b])))"
  using assms by (simp add: s3_list_def list_buckets_eq s3_list_loop_abort)

text \<open>
  What the listings do with a tag request that fails, the list request answered. The zone
  listing of the command line and the bucket listing of the page skip the item whatever
  the failure and end successfully with every other managed item. The bucket listing of
  the command line does so when the failures are error responses of the provider
  (\<^verbatim>\<open>ClientError\<close>, as for a bucket without tags).
\<close>

lemma lenient_listings:
  "(fault w ListHostedZones = None \<longrightarrow>
      route53_list cfg (w, tr) =
        ((Success, map (\<lambda>z. (after_last_slash (fst z), fst (snd z), snd (snd z)))
                     (filter (zone_listed cfg w) (listed_zones w))),
         (w, tr @ ListHostedZones # zone_tag_requests (listed_zones w))))
   \<and> (fault w ListBuckets = None \<longrightarrow>
        ui_s3_list cfg (w, tr) =
          ((Success, map fst (filter (bucket_listed cfg w) (listed_buckets w))),
           (w, tr @ ListBuckets # bucket_tag_requests (listed_buckets w))))
   \<and> (fault w ListBuckets = None
        \<and> (\<forall>b \<in> set (listed_buckets w). \<forall>e. bucket_tag_fetch w (fst b) = Inl e \<longrightarrow> e = ClientError) \<longrightarrow>
        s3_list cfg (w, tr) =
          ((Success, filter (bucket_listed cfg w) (listed_buckets w)),
           (w, tr @ ListBuckets # bucket_tag_requests (listed_buckets w))))"
  using s3_list_lenient [of w cfg tr]
  by (simp add: route53_list_eq ui_s3_list_eq)

lemma bucket_world_fetch:
  "bucket_tag_fetch bucket_world ''b1'' = Inr [(''CreatedBy'', ''platform-cli''), (''Owner'', ''student'')]"
  "bucket_tag_fetch bucket_world ''b2'' = Inl ClientError"
  "bucket_tag_fetch bucket_world ''b3'' = Inr [(''CreatedBy'', ''platform-cli''), (''Owner'', ''student'')]"
  "bucket_tag_fetch bucket_world ''b4'' = Inr [(''CreatedBy'', ''terraform'')]"
  by (simp_all add: bucket_tag_fetch_def get_bucket_tagging_def api_pair find_bucket_def
        bucket_world_def empty_world_def)

lemma bucket_world_listed:
  "listed_buckets bucket_world =
     [(''b1'', ''2024-01-01''), (''b2'', ''2024-01-02''), (''b3'', ''2024-01-03''), (''b4'', ''2024-01-04'')]"
  by (simp add: listed_buckets_def bucket_world_def empty_world_def)

text \<open>
  With four buckets of which the second has no tags, the command line lists the two
  managed ones and asks for the tags of all four.
\<close>

lemma s3_list_skips_untagged:
  "s3_list example_cfg (bucket_world, []) =
     ((Success, [(''b1'', ''2024-01-01''), (''b3'', ''2024-01-03'')]),
      (bucket_world, [ListBuckets, GetBucketTagging ''b1'', GetBucketTagging ''b2'',
                      GetBucketTagging ''b3'', GetBucketTagging ''b4'']))"
proof -
  have a: "fault bucket_world ListBuckets = None"
    by (simp add: bucket_world_def empty_world_def)
  have b: "\<forall>b \<in> set (listed_buckets bucket_world). \<forall>e. bucket_tag_fetch bucket_world (fst b) = Inl e \<longrightarrow> e = ClientError"
    by (simp add: bucket_world_listed bucket_world_fetch)
  show ?thesis
    using s3_list_lenient [OF a b, of example_cfg "[]"]
    by (simp add: bucket_world_listed bucket_listed_def bucket_world_fetch bucket_tag_requests_def
          example_cfg_def is_managed_def tags_dict_def)
qed

text \<open>
  C8. The bucket listing of the command line breaks the policy. Its inner handler names
  \<^verbatim>\<open>ClientError\<close> only, so a tag request that fails with another exception (a timeout or
  a lost connection of the client library) reaches the outer handler: with four buckets
  of which the second fails so, the listing stops at the second with an error, and the
  managed third bucket is neither asked for nor returned. The bucket listing of the page,
  run in the same world, skips the second bucket only and returns both managed ones.
\<close>

theorem s3_list_aborts_on_failed_tag_fetch:
  "s3_list example_cfg (bucket_world_timeout, []) =
     ((Failed (ProviderError BotoCoreError), [(''b1'', ''2024-01-01'')]),
      (bucket_world_timeout, [ListBuckets, GetBucketTagging ''b1'', GetBucketTagging ''b2'']))
   \<and> ui_s3_list example_cfg (bucket_world_timeout, []) =
     ((Success, [''b1'', ''b3'']),
      (bucket_world_timeout, [ListBuckets, GetBucketTagging ''b1'', GetBucketTagging ''b2'',
                              GetBucketTagging ''b3'', GetBucketTagging ''b4'']))"
proof -
  have 1: "s3_list example_cfg (bucket_world_timeout, []) =
     ((Failed (ProviderError BotoCoreError), [(''b1'', ''2024-01-01'')]),
      (bucket_world_timeout, [ListBuckets, GetBucketTagging ''b1'', GetBucketTagging ''b2'']))"
    by (simp add: s3_list_def list_buckets_def get_bucket_tagging_def api_pair find_bucket_def
          bucket_world_timeout_def bucket_world_def empty_world_def example_cfg_def
          is_managed_def tags_dict_def)
  have 2: "ui_s3_list example_cfg (bucket_world_timeout, []) =
     ((Success, [''b1'', ''b3'']),
      (bucket_world_timeout, [ListBuckets, GetBucketTagging ''b1'', GetBucketTagging ''b2'',
                              GetBucketTagging ''b3'', GetBucketTagging ''b4'']))"
    by (simp add: ui_s3_list_def list_buckets_def get_bucket_tagging_def api_pair find_bucket_def
          bucket_world_timeout_def bucket_world_def empty_world_def example_cfg_def
          is_managed_def tags_dict_def)
  show ?thesis using 1 2 by simp
qed

section \<open>The ownership guard\<close>

lemma guarded_append:
  "guarded cfg w seen (xs @ ys) = (guarded cfg w seen xs \<and> guarded cfg w (seen @ xs) ys)"
  by (induction xs arbitrary: seen) auto

lemma guarded_reads: "\<forall>c \<in> set xs. \<not> mutates c \<Longrightarrow> guarded cfg w seen xs"
  by (induction xs arbitrary: seen) auto

lemma guarded_held:
  assumes "\<forall>c \<in> set xs. mutates c \<longrightarrow>
             targets c \<noteq> [] \<and> (\<forall>r \<in> set (targets c). managed_resource cfg w r
                                  \<and> (\<exists>f \<in> set seen0. tags_fetched_by w f r))"
    and "set seen0 \<subseteq> set seen"
  shows "guarded cfg w seen xs"
  using assms
proof (induction xs arbitrary: seen)
  case Nil
  then show ?case by simp
next
  case (Cons c cs)
  have "guarded cfg w (seen @ [c]) cs"
    using Cons.prems by (intro Cons.IH) auto
  then show ?case
    using Cons.prems by (simp add: list_all_iff list_ex_iff) blast
qed

lemma filter_Cons_in: "filter P xs = i # ys \<Longrightarrow> i \<in> set xs \<and> P i"
proof -
  assume h: "filter P xs = i # ys"
  have "i \<in> set (filter P xs)" unfolding h by simp
  then show ?thesis by simp
qed

lemma first_instance_in:
  "first_instance (filter (\<lambda>r. r \<noteq> []) (map (filter P) rs)) = Inr i \<Longrightarrow> i \<in> set (concat rs) \<and> P i"
proof (induction rs)
  case Nil
  then show ?case by (simp add: first_instance_def)
next
  case (Cons a rs)
  show ?case
  proof (cases "filter P a")
    case Nil
    then show ?thesis using Cons by auto
  next
    case (Cons x xs)
    then have "x = i" using Cons.prems by (simp add: first_instance_def)
    then show ?thesis using filter_Cons_in [OF Cons] by simp
  qed
qed

lemma instance_fetch_in:
  "instance_fetch w iid = Inr i \<Longrightarrow> i \<in> set (concat (reservations w)) \<and> inst_id i = iid"
  using first_instance_in [of "\<lambda>i. inst_id i = iid" "reservations w" i]
  by (auto simp: instance_fetch_def describe_instances_def api_pair
        split: option.splits if_splits sum.splits)

lemma set_state_trace:
  "snd (snd (api c (set_state ids st) (w, tr))) = tr @ [c]"
  by (simp add: api_pair set_state_def split: option.splits)


lemma run_guarded_iff:
  "run_guarded cfg s s' \<longleftrightarrow> (\<exists>new. snd s' = snd s @ new \<and> guarded cfg (fst s) [] new)"
proof
  assume "run_guarded cfg s s'"
  then have "snd s' = snd s @ drop (length (snd s)) (snd s')"
    and "guarded cfg (fst s) [] (drop (length (snd s)) (snd s'))"
    unfolding run_guarded_def using append_take_drop_id [of "length (snd s)" "snd s'"] by auto
  then show "\<exists>new. snd s' = snd s @ new \<and> guarded cfg (fst s) [] new" by blast
next
  assume "\<exists>new. snd s' = snd s @ new \<and> guarded cfg (fst s) [] new"
  then show "run_guarded cfg s s'" unfolding run_guarded_def by auto
qed

lemma api_trace: "\<exists>r w'. api c sem (w, tr) = (r, (w', tr @ [c]))"
  by (simp add: api_pair split: option.splits prod.splits)

lemma guard_prefix:
  "(case describe_instances [] [iid] (w, tr) of
      (Inl e, s1) \<Rightarrow> (Failed (ProviderError e), s1)
    | (Inr response, s1) \<Rightarrow>
        (case first_instance response of
           Inl e \<Rightarrow> (Failed (ProviderError e), s1)
         | Inr inst \<Rightarrow> H inst s1))
   = (case instance_fetch w iid of
        Inl e \<Rightarrow> (Failed (ProviderError e), (w, tr @ [DescribeInstances [] [iid]]))
      | Inr inst \<Rightarrow> H inst (w, tr @ [DescribeInstances [] [iid]]))"
  by (subst describe_by_id) (simp add: instance_fetch_def split: sum.splits)

lemma ec2_stop_eq:
  "ec2_stop cfg iid (w, tr) =
     (case instance_fetch w iid of
        Inl e \<Rightarrow> (Failed (ProviderError e), (w, tr @ [DescribeInstances [] [iid]]))
      | Inr inst \<Rightarrow>
          if \<not> is_managed (tag_created_by cfg) (tags_dict (get_Tags inst))
          then (Failed NotManaged, (w, tr @ [DescribeInstances [] [iid]]))
          else (case stop_instances [iid] (w, tr @ [DescribeInstances [] [iid]]) of
                  (Inl e, s2) \<Rightarrow> (Failed (ProviderError e), s2)
                | (Inr _, s2) \<Rightarrow> (Success, s2)))"
  unfolding ec2_stop_def Let_def by (rule guard_prefix)

lemma ec2_start_eq:
  "ec2_start cfg iid (w, tr) =
     (case instance_fetch w iid of
        Inl e \<Rightarrow> (Failed (ProviderError e), (w, tr @ [DescribeInstances [] [iid]]))
      | Inr inst \<Rightarrow>
          if \<not> is_managed (tag_created_by cfg) (tags_dict (get_Tags inst))
          then (Failed NotManaged, (w, tr @ [DescribeInstances [] [iid]]))
          else (case start_instances [iid] (w, tr @ [DescribeInstances [] [iid]]) of
                  (Inl e, s2) \<Rightarrow> (Failed (ProviderError e), s2)
                | (Inr _, s2) \<Rightarrow> (Success, s2)))"
  unfolding ec2_start_def Let_def by (rule guard_prefix)

lemma ec2_terminate_eq:
  "ec2_terminate cfg iid confirm (w, tr) =
     (case instance_fetch w iid of
        Inl e \<Rightarrow> (Failed (ProviderError e), (w, tr @ [DescribeInstances [] [iid]]))
      | Inr inst \<Rightarrow>
          if \<not> is_managed (tag_created_by cfg) (tags_dict (get_Tags inst))
          then (Failed NotManaged, (w, tr @ [DescribeInstances [] [iid]]))
          else if confirm then
             (case terminate_instances [iid] (w, tr @ [DescribeInstances [] [iid]]) of
                  (Inl e, s2) \<Rightarrow> (Failed (ProviderError e), s2)
                | (Inr _, s2) \<Rightarrow> (Success, s2))
          else (Cancelled, (w, tr @ [DescribeInstances [] [iid]])))"
  unfolding ec2_terminate_def Let_def by (rule guard_prefix)

lemma managed_fetched_instance:
  assumes "instance_fetch w iid = Inr i"
    and "is_managed (tag_created_by cfg) (tags_dict (get_Tags i))"
  shows "managed_resource cfg w (Instance iid)"
proof -
  have "i \<in> set (concat (reservations w))" "inst_id i = iid"
    using instance_fetch_in [OF assms(1)] by simp_all
  then show ?thesis
    unfolding managed_resource_def using assms(2) by (simp only: resource.case) blast
qed

lemma first_instance_mem: "first_instance rs = Inr i \<Longrightarrow> i \<in> set (concat rs)"
  by (auto simp: first_instance_def split: list.splits)

lemma fetched_by_id:
  assumes "instance_fetch w iid = Inr i"
  shows "tags_fetched_by w (DescribeInstances [] [iid]) (Instance iid)"
proof -
  obtain response where r: "fst (describe_instances [] [iid] (w, [])) = Inr response"
    and f: "first_instance response = Inr i"
    using assms by (auto simp: instance_fetch_def split: sum.splits)
  have "i \<in> set (concat response)" using f by (rule first_instance_mem)
  moreover have "inst_id i = iid" using instance_fetch_in [OF assms] by simp
  ultimately have "iid \<in> inst_id ` set (concat response)" by blast
  then show ?thesis by (simp add: tags_fetched_by_def r)
qed

lemma guarded_instance_call:
  assumes "instance_fetch w iid = Inr i"
    and "is_managed (tag_created_by cfg) (tags_dict (get_Tags i))"
    and "c = StartInstances [iid] \<or> c = StopInstances [iid] \<or> c = TerminateInstances [iid]"
  shows "guarded cfg w [] [DescribeInstances [] [iid], c]"
  using assms(3) managed_fetched_instance [OF assms(1,2)] fetched_by_id [OF assms(1)]
  by (auto simp: mutates_def targets_def)

lemma guarded_fetch_only: "guarded cfg w [] [DescribeInstances fs ids]"
  by (simp add: mutates_def)

lemma ec2_stop_guard: "run_guarded cfg (w, tr) (snd (ec2_stop cfg iid (w, tr)))"
proof -
  obtain r w' where s: "stop_instances [iid] (w, tr @ [DescribeInstances [] [iid]]) =
      (r, (w', tr @ [DescribeInstances [] [iid]] @ [StopInstances [iid]]))"
    unfolding stop_instances_def using api_trace by (metis append.assoc)
  show ?thesis
    unfolding run_guarded_iff ec2_stop_eq s
    using guarded_instance_call [of w iid _ cfg "StopInstances [iid]"] guarded_fetch_only [of cfg w "[]" "[iid]"]
    by (auto split: sum.splits)
qed


lemma ec2_start_guard: "run_guarded cfg (w, tr) (snd (ec2_start cfg iid (w, tr)))"
proof -
  obtain r w' where s: "start_instances [iid] (w, tr @ [DescribeInstances [] [iid]]) =
      (r, (w', tr @ [DescribeInstances [] [iid]] @ [StartInstances [iid]]))"
    unfolding start_instances_def using api_trace by (metis append.assoc)
  show ?thesis
    unfolding run_guarded_iff ec2_start_eq s
    using guarded_instance_call [of w iid _ cfg "StartInstances [iid]"] guarded_fetch_only [of cfg w "[]" "[iid]"]
    by (auto split: sum.splits)
qed

lemma ec2_terminate_guard: "run_guarded cfg (w, tr) (snd (ec2_terminate cfg iid confirm (w, tr)))"
proof -
  obtain r w' where s: "terminate_instances [iid] (w, tr @ [DescribeInstances [] [iid]]) =
      (r, (w', tr @ [DescribeInstances [] [iid]] @ [TerminateInstances [iid]]))"
    unfolding terminate_instances_def using api_trace by (metis append.assoc)
  show ?thesis
    unfolding run_guarded_iff ec2_terminate_eq s
    using guarded_instance_call [of w iid _ cfg "TerminateInstances [iid]"] guarded_fetch_only [of cfg w "[]" "[iid]"]
    by (auto split: sum.splits)
qed

lemma managed_fetched_zone:
  assumes "zone_tag_fetch w zid = Inr ts" and "is_managed (tag_created_by cfg) (tags_dict ts)"
  shows "managed_resource cfg w (Zone zid)"
  using zone_fetch_world [OF assms(1)] assms(2) by (auto simp: managed_resource_def)

lemma fetched_zone:
  assumes "zone_tag_fetch w zid = Inr ts"
  shows "tags_fetched_by w (ListTagsForResource ''hostedzone'' zid) (Zone zid)"
  using assms by (simp add: tags_fetched_by_def)

lemma guarded_zone_call:
  assumes "zone_tag_fetch w zid = Inr ts" and "is_managed (tag_created_by cfg) (tags_dict ts)"
  shows "guarded cfg w []
           [ListTagsForResource ''hostedzone'' zid, GetHostedZone zid, ChangeResourceRecordSets zid a r]"
  using managed_fetched_zone [OF assms] fetched_zone [OF assms(1)]
  by (simp add: mutates_def targets_def)

lemma get_zone_trace: "\<exists>r. get_hosted_zone zid (w, tr) = (r, (w, tr @ [GetHostedZone zid]))"
  by (simp add: get_zone split: option.splits)

lemma change_trace:
  "\<exists>r w'. change_resource_record_sets zid a rr (w, tr) = (r, (w', tr @ [ChangeResourceRecordSets zid a rr]))"
  unfolding change_resource_record_sets_def by (rule api_trace)

lemma record_command_guard:
  assumes "\<And>s. cmd s =
     (case list_tags_for_resource ''hostedzone'' zid s of
        (Inl e, s1) \<Rightarrow> (Failed (ProviderError e), s1)
      | (Inr ts, s1) \<Rightarrow>
          (if \<not> is_managed (tag_created_by cfg) (tags_dict ts) then (Failed NotManaged, s1)
           else
             case get_hosted_zone zid s1 of
               (Inl e, s2) \<Rightarrow> (Failed (ProviderError e), s2)
             | (Inr zone_name, s2) \<Rightarrow>
                 (case change_resource_record_sets zid a (a_record (sub @ ''.'' @ zone_name) ip) s2 of
                    (Inl e, s3) \<Rightarrow> (Failed (ProviderError e), s3)
                  | (Inr _, s3) \<Rightarrow> (Success, s3))))"
  shows "run_guarded cfg (w, tr) (snd (cmd (w, tr)))
     \<and> (\<forall>ts. zone_tag_fetch w zid = Inr ts \<and> \<not> is_managed (tag_created_by cfg) (tags_dict ts) \<longrightarrow>
            cmd (w, tr) = (Failed NotManaged, (w, tr @ [ListTagsForResource ''hostedzone'' zid])))"
proof -
  let ?L = "ListTagsForResource ''hostedzone'' zid"
  have reads: "guarded cfg w [] [?L]" "guarded cfg w [] [?L, GetHostedZone zid]"
    by (simp_all add: mutates_def)
  have 2: "\<forall>ts. zone_tag_fetch w zid = Inr ts \<and> \<not> is_managed (tag_created_by cfg) (tags_dict ts) \<longrightarrow>
            cmd (w, tr) = (Failed NotManaged, (w, tr @ [?L]))"
    by (simp add: assms list_tags_fetch)
  have 1: "run_guarded cfg (w, tr) (snd (cmd (w, tr)))"
  proof (cases "zone_tag_fetch w zid")
    case (Inl e)
    then show ?thesis using reads by (simp add: assms list_tags_fetch run_guarded_iff)
  next
    case (Inr ts)
    show ?thesis
    proof (cases "is_managed (tag_created_by cfg) (tags_dict ts)")
      case False
      then show ?thesis using Inr reads by (simp add: assms list_tags_fetch run_guarded_iff)
    next
      case True
      obtain r1 where g: "get_hosted_zone zid (w, tr @ [?L]) = (r1, (w, tr @ [?L] @ [GetHostedZone zid]))"
        using get_zone_trace by (metis append.assoc)
      show ?thesis
      proof (cases r1)
        case (Inl e)
        then show ?thesis using Inr True g reads
          by (simp add: assms list_tags_fetch run_guarded_iff)
      next
        case zn: (Inr zone_name)
        obtain r2 w2 where c: "change_resource_record_sets zid a (a_record (sub @ ''.'' @ zone_name) ip)
              (w, tr @ [?L] @ [GetHostedZone zid]) =
            (r2, (w2, tr @ [?L, GetHostedZone zid,
                            ChangeResourceRecordSets zid a (a_record (sub @ ''.'' @ zone_name) ip)]))"
          using change_trace [of zid a "a_record (sub @ ''.'' @ zone_name) ip" w "tr @ [?L] @ [GetHostedZone zid]"]
          by auto
        have "cmd (w, tr) = ((case r2 of Inl e \<Rightarrow> Failed (ProviderError e) | Inr _ \<Rightarrow> Success),
            (w2, tr @ [?L, GetHostedZone zid,
                       ChangeResourceRecordSets zid a (a_record (sub @ ''.'' @ zone_name) ip)]))"
          using Inr True g zn c by (simp add: assms list_tags_fetch split: sum.splits)
        then have "snd (snd (cmd (w, tr))) = tr @ [?L, GetHostedZone zid,
                       ChangeResourceRecordSets zid a (a_record (sub @ ''.'' @ zone_name) ip)]"
          by (simp only: snd_conv)
        then show ?thesis
          unfolding run_guarded_iff fst_conv snd_conv
          using guarded_zone_call [OF Inr True, where a = a and r = "a_record (sub @ ''.'' @ zone_name) ip"]
          by blast
      qed
    qed
  qed
  from 1 2 show ?thesis by blast
qed

lemma add_record_guard:
  "run_guarded cfg (w, tr) (snd (add_record cfg zid sub ip (w, tr)))
     \<and> (\<forall>ts. zone_tag_fetch w zid = Inr ts \<and> \<not> is_managed (tag_created_by cfg) (tags_dict ts) \<longrightarrow>
            add_record cfg zid sub ip (w, tr) =
              (Failed NotManaged, (w, tr @ [ListTagsForResource ''hostedzone'' zid])))"
  by (rule record_command_guard [where a = UPSERT and sub = sub and ip = ip])
     (unfold add_record_def Let_def, rule refl)

lemma delete_record_guard:
  "run_guarded cfg (w, tr) (snd (delete_record cfg zid sub ip (w, tr)))
     \<and> (\<forall>ts. zone_tag_fetch w zid = Inr ts \<and> \<not> is_managed (tag_created_by cfg) (tags_dict ts) \<longrightarrow>
            delete_record cfg zid sub ip (w, tr) =
              (Failed NotManaged, (w, tr @ [ListTagsForResource ''hostedzone'' zid])))"
  by (rule record_command_guard [where a = DELETE and sub = sub and ip = ip])
     (unfold delete_record_def Let_def, rule refl)

lemma selectbox_in: "xs \<noteq> [] \<Longrightarrow> selectbox xs c \<in> set xs"
  by (simp add: selectbox_def)

lemma ui_ec2_guard:
  assumes "\<forall>i \<in> set (concat (reservations w)). distinct (map fst (get_Tags i))"
  shows "run_guarded cfg (w, tr) (snd (ui_ec2 cfg choice button (w, tr)))"
proof (cases "fault w (listing_request cfg)")
  case (Some e)
  then show ?thesis
    by (simp add: ui_ec2_def describe_listing run_guarded_iff listing_request_def mutates_def)
next
  case None
  let ?L = "listing_request cfg"
  let ?insts = "filter (\<lambda>i. inst_state i \<noteq> ''terminated'')
                  (filter (\<lambda>i. (''CreatedBy'', tag_created_by cfg) \<in> set (get_Tags i))
                     (concat (reservations w)))"
  let ?data = "map ui_ec2_row_of ?insts"
  have L: "\<not> mutates ?L" by (simp add: listing_request_def mutates_def)
  have only: "guarded cfg w [] [?L]" using L by simp
  show ?thesis
  proof (cases "?data = [] \<or> button = None")
    case True
    then show ?thesis
      using None only
      by (auto simp: ui_ec2_def describe_listing listed_instances Let_def run_guarded_iff)
  next
    case False
    then obtain b where b: "button = Some b" and ne: "?data \<noteq> []" by auto
    let ?sel = "selectbox (map fst ?data) choice"
    have "?sel \<in> set (map fst ?data)" using ne by (intro selectbox_in) simp
    then obtain i where i: "i \<in> set ?insts" "?sel = inst_id i"
      by (auto simp: ui_ec2_row_of_def)
    then have "i \<in> set (concat (reservations w))"
      and "(''CreatedBy'', tag_created_by cfg) \<in> set (get_Tags i)" by auto
    then have m: "managed_resource cfg w (Instance ?sel)"
      unfolding managed_resource_def resource.case i(2)
      using assms tags_dict_member [of "get_Tags i" "''CreatedBy''" "tag_created_by cfg"]
      by (auto simp: is_managed_def)
    define c where "c = (case b of Start \<Rightarrow> StartInstances [?sel] | Stop \<Rightarrow> StopInstances [?sel]
                          | Terminate \<Rightarrow> TerminateInstances [?sel])"
    have f: "tags_fetched_by w ?L (Instance ?sel)"
      using None i
      by (simp add: tags_fetched_by_def listing_request_def describe_listing [of cfg w "[]", unfolded listing_request_def]
            listed_instances)
    have g: "guarded cfg w [] [?L, c]"
      using m L f by (cases b) (simp_all add: c_def mutates_def targets_def)
    obtain r1 w1 where s1: "start_instances [?sel] (w, tr @ [?L]) = (r1, (w1, tr @ [?L] @ [StartInstances [?sel]]))"
      unfolding start_instances_def using api_trace by (metis append.assoc)
    obtain r2 w2 where s2: "stop_instances [?sel] (w, tr @ [?L]) = (r2, (w2, tr @ [?L] @ [StopInstances [?sel]]))"
      unfolding stop_instances_def using api_trace by (metis append.assoc)
    obtain r3 w3 where s3: "terminate_instances [?sel] (w, tr @ [?L]) = (r3, (w3, tr @ [?L] @ [TerminateInstances [?sel]]))"
      unfolding terminate_instances_def using api_trace by (metis append.assoc)
    have "snd (snd (ui_ec2 cfg choice button (w, tr))) = tr @ [?L, c]"
      using None b ne s1 s2 s3
      by (cases b)
         (simp_all add: ui_ec2_def describe_listing listed_instances Let_def c_def split: sum.splits)
    then show ?thesis
      unfolding run_guarded_iff fst_conv snd_conv using g by blast
  qed
qed


lemma map_of_dict_set: "map_of (dict_set k v m) = (map_of m)(k \<mapsto> v)"
  by (induction m) (auto simp: fun_eq_iff)

lemma fold_dict_set_range:
  "map_of (fold (\<lambda>z. dict_set (f z) (g z)) zs m) n = Some t \<Longrightarrow>
     map_of m n = Some t \<or> (\<exists>z \<in> set zs. t = g z)"
  by (induction zs arbitrary: m) (fastforce simp: map_of_dict_set split: if_splits)+

lemma ui_records_loop_trace:
  "\<exists>r w' rest. ui_records_loop zid recs clicked (w, tr) = (r, (w', tr @ rest))
     \<and> (\<forall>c \<in> set rest. \<exists>rr. c = ChangeResourceRecordSets zid DELETE rr)"
proof (induction recs)
  case Nil
  then show ?case by simp
next
  case (Cons rec recs)
  show ?case
  proof (cases "rr_values rec")
    case Nil
    then show ?thesis by simp
  next
    case (Cons r_val vs)
    let ?rr = "\<lparr>rr_name = rr_name rec, rr_type = ''A'',
                 rr_ttl = Some (case rr_ttl rec of None \<Rightarrow> 300 | Some t \<Rightarrow> t), rr_values = [r_val]\<rparr>"
    obtain r w' where c: "change_resource_record_sets zid DELETE ?rr (w, tr) =
        (r, (w', tr @ [ChangeResourceRecordSets zid DELETE ?rr]))"
      using change_trace by blast
    show ?thesis
    proof (cases "clicked = Some (rr_name rec)")
      case True
      have "ui_records_loop zid (rec # recs) clicked (w, tr) =
          ((case r of Inl e \<Rightarrow> Failed (ProviderError e) | Inr _ \<Rightarrow> Success),
           (w', tr @ [ChangeResourceRecordSets zid DELETE ?rr]))"
        using Cons True c by (simp add: Let_def split: sum.splits)
      then show ?thesis by auto
    next
      case False
      then have "ui_records_loop zid (rec # recs) clicked (w, tr) = ui_records_loop zid recs clicked (w, tr)"
        using Cons by (simp add: Let_def)
      then show ?thesis using Cons.IH by simp
    qed
  qed
qed

lemma list_rrsets_trace:
  "\<exists>r. list_resource_record_sets zid (w, tr) = (r, (w, tr @ [ListResourceRecordSets zid]))"
  by (simp add: list_resource_record_sets_def api_pair split: option.splits)

lemma ui_records_trace:
  "\<exists>r w' rest. ui_records zid clicked (w, tr) = (r, (w', tr @ ListResourceRecordSets zid # rest))
     \<and> (\<forall>c \<in> set rest. \<exists>rr. c = ChangeResourceRecordSets zid DELETE rr)"
proof -
  obtain r where l: "list_resource_record_sets zid (w, tr) = (r, (w, tr @ [ListResourceRecordSets zid]))"
    using list_rrsets_trace by blast
  show ?thesis
  proof (cases r)
    case (Inl e)
    then show ?thesis using l by (simp add: ui_records_def)
  next
    case (Inr records)
    obtain r' w' rest where
      "ui_records_loop zid (filter (\<lambda>r. rr_type r = ''A'') records) clicked
          (w, tr @ [ListResourceRecordSets zid]) = (r', (w', (tr @ [ListResourceRecordSets zid]) @ rest))"
      and "\<forall>c \<in> set rest. \<exists>rr. c = ChangeResourceRecordSets zid DELETE rr"
      using ui_records_loop_trace by blast
    then show ?thesis using l Inr by (simp add: ui_records_def)
  qed
qed


lemma ui_dns_after_listing:
  assumes "fault w ListHostedZones = None"
  shows "ui_dns cfg choice button (w, tr) =
     (let listed = filter (zone_listed cfg w) (listed_zones w);
          my_zones = fold (\<lambda>z. dict_set (fst (snd z)) (after_last_slash (fst z))) listed [];
          table_data = map (\<lambda>z. (fst (snd z), after_last_slash (fst z), snd (snd z))) listed;
          s2 = (w, tr @ ListHostedZones # zone_tag_requests (listed_zones w)) in
      if table_data = [] then ((Success, table_data), s2)
      else
        case map_of my_zones (selectbox (map fst my_zones) choice) of
          None \<Rightarrow> ((Failed (ProviderError KeyError), table_data), s2)
        | Some target_zone_id \<Rightarrow>
            (case button of
               Some (AddRecord sub ip) \<Rightarrow>
                 (case change_resource_record_sets target_zone_id UPSERT
                         (a_record (sub @ ''.'' @ selectbox (map fst my_zones) choice) ip) s2 of
                    (Inr _, s3) \<Rightarrow> ((Success, table_data), s3)
                  | (Inl e, s3) \<Rightarrow>
                      (case ui_records target_zone_id None s3 of
                         (_, s4) \<Rightarrow> ((Failed (ProviderError e), table_data), s4)))
             | Some (DeleteRecord key) \<Rightarrow>
                 (case ui_records target_zone_id (Some key) s2 of
                    (r, s3) \<Rightarrow> ((r, table_data), s3))
             | None \<Rightarrow>
                 (case ui_records target_zone_id None s2 of
                    (r, s3) \<Rightarrow> ((r, table_data), s3))))"
  unfolding ui_dns_def Let_def using assms
  by (simp add: list_hosted_zones_eq ui_zone_loop_eq)

lemma ui_dns_trace:
  assumes "fault w ListHostedZones = None"
  shows "\<exists>tail. snd (snd (ui_dns cfg choice button (w, tr))) =
              (tr @ ListHostedZones # zone_tag_requests (listed_zones w)) @ tail
     \<and> (\<forall>c \<in> set tail. mutates c \<longrightarrow>
           (\<exists>z \<in> set (filter (zone_listed cfg w) (listed_zones w)).
              \<exists>a r. c = ChangeResourceRecordSets (after_last_slash (fst z)) a r))"
proof -
  let ?listed = "filter (zone_listed cfg w) (listed_zones w)"
  let ?M = "fold (\<lambda>z. dict_set (fst (snd z)) (after_last_slash (fst z))) ?listed []"
  let ?T = "map (\<lambda>z. (fst (snd z), after_last_slash (fst z), snd (snd z))) ?listed"
  let ?tr2 = "tr @ ListHostedZones # zone_tag_requests (listed_zones w)"
  let ?name = "selectbox (map fst ?M) choice"
  note eq = ui_dns_after_listing [OF assms, of cfg choice button tr, unfolded Let_def]
  show ?thesis
  proof (cases "?T = []")
    case True
    then have "snd (snd (ui_dns cfg choice button (w, tr))) = ?tr2 @ []"
      unfolding eq by simp
    then show ?thesis by (intro exI [of _ "[]"]) simp
  next
    case nonempty: False
    show ?thesis
    proof (cases "map_of ?M ?name")
      case None
      then have "snd (snd (ui_dns cfg choice button (w, tr))) = ?tr2 @ []"
        unfolding eq using nonempty by simp
      then show ?thesis by (intro exI [of _ "[]"]) simp
    next
      case (Some tz)
      then obtain z where z: "z \<in> set ?listed" "tz = after_last_slash (fst z)"
        using fold_dict_set_range [of "\<lambda>z. fst (snd z)" "\<lambda>z. after_last_slash (fst z)" ?listed "[]" ?name tz]
        by auto
      have ok: "\<forall>c \<in> set tail. mutates c \<longrightarrow>
           (\<exists>z \<in> set ?listed. \<exists>a r. c = ChangeResourceRecordSets (after_last_slash (fst z)) a r)"
        if "\<forall>c \<in> set tail. mutates c \<longrightarrow> (\<exists>a r. c = ChangeResourceRecordSets tz a r)" for tail
        using that z by blast
      have reads: "\<not> mutates (ListResourceRecordSets tz)" by (simp add: mutates_def)
      have records: "\<exists>r w'' tail. ui_records tz clicked (w', tr') = (r, (w'', tr' @ tail))
          \<and> (\<forall>c \<in> set tail. mutates c \<longrightarrow> (\<exists>a r. c = ChangeResourceRecordSets tz a r))" for clicked w' tr'
      proof -
        obtain r w'' rest where "ui_records tz clicked (w', tr') = (r, (w'', tr' @ ListResourceRecordSets tz # rest))"
          and "\<forall>c \<in> set rest. \<exists>rr. c = ChangeResourceRecordSets tz DELETE rr"
          using ui_records_trace by blast
        then show ?thesis
          using reads by (intro exI [of _ r] exI [of _ w''] exI [of _ "ListResourceRecordSets tz # rest"]) auto
      qed
      have "\<exists>tail. snd (snd (ui_dns cfg choice button (w, tr))) = ?tr2 @ tail
          \<and> (\<forall>c \<in> set tail. mutates c \<longrightarrow> (\<exists>a r. c = ChangeResourceRecordSets tz a r))"
      proof (cases button)
        case None
        obtain r w'' tail where u: "ui_records tz None (w, ?tr2) = (r, (w'', ?tr2 @ tail))"
          and t: "\<forall>c \<in> set tail. mutates c \<longrightarrow> (\<exists>a r. c = ChangeResourceRecordSets tz a r)"
          using records by blast
        have "snd (snd (ui_dns cfg choice button (w, tr))) = ?tr2 @ tail"
          unfolding eq using nonempty Some None u by simp
        then show ?thesis using t by blast
      next
        case b: (Some b)
        show ?thesis
        proof (cases b)
          case (DeleteRecord key)
          obtain r w'' tail where u: "ui_records tz (Some key) (w, ?tr2) = (r, (w'', ?tr2 @ tail))"
            and t: "\<forall>c \<in> set tail. mutates c \<longrightarrow> (\<exists>a r. c = ChangeResourceRecordSets tz a r)"
            using records by blast
          have "snd (snd (ui_dns cfg choice button (w, tr))) = ?tr2 @ tail"
            unfolding eq using nonempty Some b DeleteRecord u by simp
          then show ?thesis using t by blast
        next
          case (AddRecord sub ip)
          let ?C = "ChangeResourceRecordSets tz UPSERT (a_record (sub @ ''.'' @ ?name) ip)"
          obtain r w' where c: "change_resource_record_sets tz UPSERT (a_record (sub @ ''.'' @ ?name) ip)
                (w, ?tr2) = (r, (w', ?tr2 @ [?C]))"
            using change_trace by blast
          show ?thesis
          proof (cases r)
            case (Inr u)
            then have "snd (snd (ui_dns cfg choice button (w, tr))) = ?tr2 @ [?C]"
              unfolding eq using nonempty Some b AddRecord c by simp
            then show ?thesis by (intro exI [of _ "[?C]"]) simp
          next
            case (Inl e)
            obtain r' w'' tail where u: "ui_records tz None (w', ?tr2 @ [?C]) = (r', (w'', (?tr2 @ [?C]) @ tail))"
              and t: "\<forall>c \<in> set tail. mutates c \<longrightarrow> (\<exists>a r. c = ChangeResourceRecordSets tz a r)"
              using records by blast
            have "snd (snd (ui_dns cfg choice button (w, tr))) = ?tr2 @ (?C # tail)"
              unfolding eq using nonempty Some b AddRecord c Inl u by simp
            then show ?thesis using t by (intro exI [of _ "?C # tail"]) simp
          qed
        qed
      qed
      then show ?thesis using ok by blast
    qed
  qed
qed

lemma ui_dns_guard: "run_guarded cfg (w, tr) (snd (ui_dns cfg choice button (w, tr)))"
proof (cases "fault w ListHostedZones")
  case (Some e)
  then show ?thesis
    by (simp add: ui_dns_def list_hosted_zones_eq run_guarded_iff mutates_def)
next
  case None
  let ?pre = "ListHostedZones # zone_tag_requests (listed_zones w)"
  obtain tail where t: "snd (snd (ui_dns cfg choice button (w, tr))) = (tr @ ?pre) @ tail"
    and m: "\<forall>c \<in> set tail. mutates c \<longrightarrow>
           (\<exists>z \<in> set (filter (zone_listed cfg w) (listed_zones w)).
              \<exists>a r. c = ChangeResourceRecordSets (after_last_slash (fst z)) a r)"
    using ui_dns_trace [OF None] by blast
  have pre: "guarded cfg w [] ?pre"
    by (rule guarded_reads) (auto simp: mutates_def zone_tag_requests_def)
  have "guarded cfg w ([] @ ?pre) tail"
  proof (rule guarded_held [where ?seen0.0 = "zone_tag_requests (listed_zones w)"])
    show "set (zone_tag_requests (listed_zones w)) \<subseteq> set ([] @ ?pre)" by auto
    show "\<forall>c \<in> set tail. mutates c \<longrightarrow>
             targets c \<noteq> [] \<and> (\<forall>r \<in> set (targets c). managed_resource cfg w r
                \<and> (\<exists>f \<in> set (zone_tag_requests (listed_zones w)). tags_fetched_by w f r))"
    proof (intro ballI impI)
      fix c assume "c \<in> set tail" "mutates c"
      then obtain z a r where z: "z \<in> set (listed_zones w)" "zone_listed cfg w z"
        and c: "c = ChangeResourceRecordSets (after_last_slash (fst z)) a r"
        using m by auto
      have "managed_resource cfg w (Zone (after_last_slash (fst z)))"
        using zone_listed_world [OF z(2)] by (auto simp: managed_resource_def)
      moreover have "ListTagsForResource ''hostedzone'' (after_last_slash (fst z))
                       \<in> set (zone_tag_requests (listed_zones w))"
        using z(1) by (auto simp: zone_tag_requests_def)
      moreover have "tags_fetched_by w (ListTagsForResource ''hostedzone'' (after_last_slash (fst z)))
                       (Zone (after_last_slash (fst z)))"
        using z(2) by (simp add: tags_fetched_by_def zone_listed_def split: sum.splits)
      ultimately show "targets c \<noteq> [] \<and> (\<forall>r \<in> set (targets c). managed_resource cfg w r
                \<and> (\<exists>f \<in> set (zone_tag_requests (listed_zones w)). tags_fetched_by w f r))"
        unfolding c by (auto simp: targets_def)
    qed
  qed
  then have "guarded cfg w [] (?pre @ tail)"
    using pre by (simp only: guarded_append append_Nil)
  moreover have "snd (snd (ui_dns cfg choice button (w, tr))) = tr @ (?pre @ tail)"
    using t by (simp only: append_assoc)
  ultimately show ?thesis
    unfolding run_guarded_iff fst_conv snd_conv by blast
qed

lemma mixed_world_fetch:
  "instance_fetch mixed_world ''i-3'' =
     Inr \<lparr>inst_id = ''i-3'', inst_tags = Some [(''CreatedBy'', ''terraform'')],
          inst_state = ''running'', inst_type = ''t3.large'', inst_public_ip = Some ''10.0.0.3''\<rparr>"
  by (simp add: instance_fetch_def describe_instances_def api_pair mixed_world_def
        example_instance_def first_instance_def)

lemma dns_world_fetch:
  "zone_tag_fetch dns_world ''Z2'' = Inr [(''CreatedBy'', ''terraform''), (''Owner'', ''student'')]"
  by (simp add: zone_tag_fetch_def list_tags_for_resource_def api_pair find_zone_def
        after_last_slash_def dns_world_def empty_world_def)

text \<open>
  C1. The commands \<^verbatim>\<open>stop\<close>, \<^verbatim>\<open>start\<close>, \<^verbatim>\<open>terminate\<close>, \<^verbatim>\<open>add-record\<close> and
  \<^verbatim>\<open>delete-record\<close> first fetch the tags of the resource; when the tags fetched do not carry
  the configured \<^verbatim>\<open>CreatedBy\<close> value the command fails with the not-managed message, the
  tag request is the only request it has sent and the world is unchanged. For every input
  the run is guarded: a request that changes an instance or the records of a zone is sent
  only for a resource that is managed and whose tags an earlier request of the same run
  has fetched. The same holds of every run of the instance section and of the zone
  section of the page, whose buttons act on a resource chosen among those the listing of
  the same run fetched and found managed (for the instances, with the tag keys of an
  instance distinct, as the provider keeps them); the page has no not-managed message,
  since an unmanaged resource cannot be chosen there.
\<close>

theorem mutations_guarded:
  "(instance_fetch w iid = Inr i \<and> \<not> is_managed (tag_created_by cfg) (tags_dict (get_Tags i)) \<longrightarrow>
      ec2_stop cfg iid (w, tr) = (Failed NotManaged, (w, tr @ [DescribeInstances [] [iid]]))
      \<and> ec2_start cfg iid (w, tr) = (Failed NotManaged, (w, tr @ [DescribeInstances [] [iid]]))
      \<and> ec2_terminate cfg iid confirm (w, tr) = (Failed NotManaged, (w, tr @ [DescribeInstances [] [iid]])))
   \<and> (zone_tag_fetch w zid = Inr ts \<and> \<not> is_managed (tag_created_by cfg) (tags_dict ts) \<longrightarrow>
        add_record cfg zid sub ip (w, tr) = (Failed NotManaged, (w, tr @ [ListTagsForResource ''hostedzone'' zid]))
        \<and> delete_record cfg zid sub ip (w, tr) = (Failed NotManaged, (w, tr @ [ListTagsForResource ''hostedzone'' zid])))
   \<and> run_guarded cfg (w, tr) (snd (ec2_stop cfg iid (w, tr)))
   \<and> run_guarded cfg (w, tr) (snd (ec2_start cfg iid (w, tr)))
   \<and> run_guarded cfg (w, tr) (snd (ec2_terminate cfg iid confirm (w, tr)))
   \<and> run_guarded cfg (w, tr) (snd (add_record cfg zid sub ip (w, tr)))
   \<and> run_guarded cfg (w, tr) (snd (delete_record cfg zid sub ip (w, tr)))
   \<and> ((\<forall>i \<in> set (concat (reservations w)). distinct (map fst (get_Tags i))) \<longrightarrow>
         run_guarded cfg (w, tr) (snd (ui_ec2 cfg choice button (w, tr))))
   \<and> run_guarded cfg (w, tr) (snd (ui_dns cfg choice' button' (w, tr)))"
proof -
  have 1: "ec2_stop cfg iid (w, tr) = (Failed NotManaged, (w, tr @ [DescribeInstances [] [iid]]))
      \<and> ec2_start cfg iid (w, tr) = (Failed NotManaged, (w, tr @ [DescribeInstances [] [iid]]))
      \<and> ec2_terminate cfg iid confirm (w, tr) = (Failed NotManaged, (w, tr @ [DescribeInstances [] [iid]]))"
    if "instance_fetch w iid = Inr i" "\<not> is_managed (tag_created_by cfg) (tags_dict (get_Tags i))"
    using that by (simp add: ec2_stop_eq ec2_start_eq ec2_terminate_eq)
  have 2: "add_record cfg zid sub ip (w, tr) = (Failed NotManaged, (w, tr @ [ListTagsForResource ''hostedzone'' zid]))
        \<and> delete_record cfg zid sub ip (w, tr) = (Failed NotManaged, (w, tr @ [ListTagsForResource ''hostedzone'' zid]))"
    if "zone_tag_fetch w zid = Inr ts" "\<not> is_managed (tag_created_by cfg) (tags_dict ts)"
    using that add_record_guard [of cfg w tr zid sub ip] delete_record_guard [of cfg w tr zid sub ip]
    by blast
  show ?thesis
    using 1 2 ec2_stop_guard [of cfg w tr iid] ec2_start_guard [of cfg w tr iid]
      ec2_terminate_guard [of cfg w tr iid confirm]
      add_record_guard [of cfg w tr zid sub ip] delete_record_guard [of cfg w tr zid sub ip]
      ui_ec2_guard [of w cfg tr choice button] ui_dns_guard [of cfg w tr choice' button']
    by blast
qed

theorem mutations_guarded_witness:
  "ec2_terminate example_cfg ''i-3'' True (mixed_world, []) =
     (Failed NotManaged, (mixed_world, [DescribeInstances [] [''i-3'']]))
   \<and> ec2_stop example_cfg ''i-3'' (mixed_world, []) =
     (Failed NotManaged, (mixed_world, [DescribeInstances [] [''i-3'']]))
   \<and> delete_record example_cfg ''Z2'' ''www'' ''1.2.3.4'' (dns_world, []) =
     (Failed NotManaged, (dns_world, [ListTagsForResource ''hostedzone'' ''Z2'']))
   \<and> run_guarded example_cfg (mixed_world, []) (snd (ui_ec2 example_cfg 1 (Some Stop) (mixed_world, [])))
   \<and> snd (snd (ui_ec2 example_cfg 1 (Some Stop) (mixed_world, []))) =
       [DescribeInstances [(''tag:CreatedBy'', [''platform-cli''])] [], StopInstances [''i-1'']]
   \<and> run_guarded example_cfg (mixed_world, []) (snd (ec2_stop example_cfg ''i-1'' (mixed_world, [])))
   \<and> snd (snd (ec2_stop example_cfg ''i-1'' (mixed_world, []))) =
       [DescribeInstances [] [''i-1''], StopInstances [''i-1'']]"
proof -
  have p: "snd (snd (ec2_stop example_cfg ''i-1'' (mixed_world, []))) =
       [DescribeInstances [] [''i-1''], StopInstances [''i-1'']]"
    by (simp add: ec2_stop_def describe_instances_def api_pair mixed_world_def
        example_cfg_def example_instance_def first_instance_def get_Tags_def is_managed_def
        tags_dict_def stop_instances_def set_state_def Let_def)
  have a: "\<not> is_managed (tag_created_by example_cfg)
             (tags_dict (get_Tags \<lparr>inst_id = ''i-3'', inst_tags = Some [(''CreatedBy'', ''terraform'')],
                inst_state = ''running'', inst_type = ''t3.large'', inst_public_ip = Some ''10.0.0.3''\<rparr>))"
    by (simp add: is_managed_def tags_dict_def get_Tags_def example_cfg_def)
  have b: "\<not> is_managed (tag_created_by example_cfg)
             (tags_dict [(''CreatedBy'', ''terraform''), (''Owner'', ''student'')])"
    by (simp add: is_managed_def tags_dict_def example_cfg_def)
  have wf: "\<forall>i \<in> set (concat (reservations mixed_world)). distinct (map fst (get_Tags i))"
    by (simp add: mixed_world_def example_instance_def get_Tags_def)
  have t: "snd (snd (ui_ec2 example_cfg 1 (Some Stop) (mixed_world, []))) =
       [DescribeInstances [(''tag:CreatedBy'', [''platform-cli''])] [], StopInstances [''i-1'']]"
    by (simp add: ui_ec2_def describe_instances_def api_pair mixed_world_def
        example_cfg_def example_instance_def filter_matches_def get_Tags_def ui_ec2_row_of_def
        selectbox_def stop_instances_def set_state_def Let_def)
  show ?thesis
    using mutations_guarded [of mixed_world "''i-3''" _ example_cfg "[]" True "''Z2''" _ "''www''" "''1.2.3.4''" 1 "Some Stop" 0 None]
      mutations_guarded [of dns_world "''i-3''" _ example_cfg "[]" True "''Z2''" _ "''www''" "''1.2.3.4''" 1 "Some Stop" 0 None]
      mutations_guarded [of mixed_world "''i-1''" _ example_cfg "[]" True "''Z2''" _ "''www''" "''1.2.3.4''" 1 "Some Stop" 0 None]
      mixed_world_fetch dns_world_fetch a b wf t p
    by simp
qed

end
